theory Spec2Isabelle
  imports Complex_Main
begin

section \<open>The JavaScript values the program computes with\<close>

text \<open>
  The nutrition lookup (\<^verbatim>\<open>Api/nutrition.js\<close>) and the offline estimator of
  \<^verbatim>\<open>src/src/App.jsx\<close> are JavaScript. Their results depend on the language's
  loose coercions (truthiness, \<^verbatim>\<open>Number\<close>, \<^verbatim>\<open>parseFloat\<close>), on \<^verbatim>\<open>NaN\<close>
  and on regular-expression matching, so these are modelled first.

  A number is a double. The model keeps \<^verbatim>\<open>NaN\<close> and the two infinities apart and
  takes every finite double as the exact rational it denotes: rounding, overflow and
  the sign of zero are outside the model.
\<close>

datatype jsnum = Fin rat | PInf | NInf | NaN

fun js_add :: "jsnum \<Rightarrow> jsnum \<Rightarrow> jsnum" where
  "js_add NaN _ = NaN"
| "js_add _ NaN = NaN"
| "js_add (Fin a) (Fin b) = Fin (a + b)"
| "js_add PInf NInf = NaN"
| "js_add NInf PInf = NaN"
| "js_add PInf _ = PInf"
| "js_add _ PInf = PInf"
| "js_add NInf _ = NInf"
| "js_add _ NInf = NInf"

definition js_sign_inf :: "bool \<Rightarrow> jsnum" where
  "js_sign_inf positive = (if positive then PInf else NInf)"

fun js_mul :: "jsnum \<Rightarrow> jsnum \<Rightarrow> jsnum" where
  "js_mul NaN _ = NaN"
| "js_mul _ NaN = NaN"
| "js_mul (Fin a) (Fin b) = Fin (a * b)"
| "js_mul (Fin a) PInf = (if a = 0 then NaN else js_sign_inf (0 < a))"
| "js_mul (Fin a) NInf = (if a = 0 then NaN else js_sign_inf (a < 0))"
| "js_mul PInf (Fin b) = (if b = 0 then NaN else js_sign_inf (0 < b))"
| "js_mul NInf (Fin b) = (if b = 0 then NaN else js_sign_inf (b < 0))"
| "js_mul PInf PInf = PInf"
| "js_mul NInf NInf = PInf"
| "js_mul PInf NInf = NInf"
| "js_mul NInf PInf = NInf"

fun js_div :: "jsnum \<Rightarrow> jsnum \<Rightarrow> jsnum" where
  "js_div NaN _ = NaN"
| "js_div _ NaN = NaN"
| "js_div (Fin a) (Fin b) =
     (if b = 0 then (if a = 0 then NaN else js_sign_inf (0 < a)) else Fin (a / b))"
| "js_div (Fin a) _ = Fin 0"
| "js_div PInf (Fin b) = js_sign_inf (0 \<le> b)"
| "js_div NInf (Fin b) = js_sign_inf (b < 0)"
| "js_div _ _ = NaN"

text \<open>\<^verbatim>\<open>a < b\<close> and \<^verbatim>\<open>a <= b\<close> on numbers: false as soon as one side is \<^verbatim>\<open>NaN\<close>.\<close>

fun js_less :: "jsnum \<Rightarrow> jsnum \<Rightarrow> bool" where
  "js_less NaN _ = False"
| "js_less _ NaN = False"
| "js_less (Fin a) (Fin b) = (a < b)"
| "js_less _ NInf = False"
| "js_less NInf _ = True"
| "js_less PInf _ = False"
| "js_less _ PInf = True"

fun js_le :: "jsnum \<Rightarrow> jsnum \<Rightarrow> bool" where
  "js_le NaN _ = False"
| "js_le _ NaN = False"
| "js_le (Fin a) (Fin b) = (a \<le> b)"
| "js_le NInf _ = True"
| "js_le _ PInf = True"
| "js_le _ _ = False"

text \<open>\<^verbatim>\<open>Math.round\<close>: the nearest integer, a tie going up.\<close>

fun Math_round :: "jsnum \<Rightarrow> jsnum" where
  "Math_round (Fin a) = Fin (of_int \<lfloor>a + 1 / 2\<rfloor>)"
| "Math_round x = x"

fun isNaN :: "jsnum \<Rightarrow> bool" where
  "isNaN NaN = True"
| "isNaN _ = False"

text \<open>The truth value of a number: \<^verbatim>\<open>0\<close> and \<^verbatim>\<open>NaN\<close> are falsy.\<close>

fun num_truthy :: "jsnum \<Rightarrow> bool" where
  "num_truthy (Fin a) = (a \<noteq> 0)"
| "num_truthy NaN = False"
| "num_truthy _ = True"

subsection \<open>Characters and strings\<close>

text \<open>
  A string is the list of its characters; the model covers the characters below
  U+0100. White space is what \<^verbatim>\<open>trim\<close>, \<^verbatim>\<open>\s\<close> and the number parsers skip.
\<close>

definition is_digit :: "char \<Rightarrow> bool" where
  "is_digit c = (c \<in> set ''0123456789'')"

definition is_space :: "char \<Rightarrow> bool" where
  "is_space c =
     (c \<in> set [CHR 0x09, CHR 0x0A, CHR 0x0B, CHR 0x0C, CHR 0x0D, CHR '' '', CHR 0xA0])"

definition is_word :: "char \<Rightarrow> bool" where
  "is_word c =
     (c \<in> set ''abcdefghijklmnopqrstuvwxyzABCDEFGHIJKLMNOPQRSTUVWXYZ0123456789_'')"

definition toLowerCase_char :: "char \<Rightarrow> char" where
  "toLowerCase_char c =
     (let n = (of_char c :: nat) in
      if (65 \<le> n \<and> n \<le> 90) \<or> (192 \<le> n \<and> n \<le> 222 \<and> n \<noteq> 215)
      then char_of (n + 32) else c)"

definition toLowerCase :: "string \<Rightarrow> string" where
  "toLowerCase s = map toLowerCase_char s"

definition trim :: "string \<Rightarrow> string" where
  "trim s = rev (dropWhile is_space (rev (dropWhile is_space s)))"

text \<open>\<^verbatim>\<open>s.includes(k)\<close>: \<open>k\<close> occurs in \<open>s\<close> as a contiguous substring.\<close>

fun starts_with :: "string \<Rightarrow> string \<Rightarrow> bool" where
  "starts_with s [] = True"
| "starts_with [] (k # ks) = False"
| "starts_with (c # cs) (k # ks) = (c = k \<and> starts_with cs ks)"

fun str_includes :: "string \<Rightarrow> string \<Rightarrow> bool" where
  "str_includes [] k = (k = [])"
| "str_includes (c # cs) k = (starts_with (c # cs) k \<or> str_includes cs k)"

subsection \<open>Reading numbers from strings\<close>

definition digit_of :: "char \<Rightarrow> nat" where
  "digit_of c = of_char c - 48"

definition digits_val :: "string \<Rightarrow> nat" where
  "digits_val ds = foldl (\<lambda>a c. 10 * a + digit_of c) 0 ds"

definition exp10 :: "int \<Rightarrow> rat" where
  "exp10 e = (if 0 \<le> e then 10 ^ nat e else 1 / 10 ^ nat (- e))"

text \<open>
  An exponent part (\<^verbatim>\<open>e\<close>, an optional sign, digits) at the head of the string, with
  what follows it; exponent 0 and the string itself when there is none.
\<close>

definition parse_exponent :: "string \<Rightarrow> int \<times> string" where
  "parse_exponent s =
     (case s of
        [] \<Rightarrow> (0, s)
      | c # t \<Rightarrow>
          if c = CHR ''e'' \<or> c = CHR ''E'' then
            (let neg = (case t of [] \<Rightarrow> False | x # _ \<Rightarrow> x = CHR ''-'');
                 u = (case t of [] \<Rightarrow> t
                      | x # v \<Rightarrow> if x = CHR ''-'' \<or> x = CHR ''+'' then v else t);
                 ds = takeWhile is_digit u
             in if ds = [] then (0, s)
                else ((if neg then - int (digits_val ds) else int (digits_val ds)),
                      dropWhile is_digit u))
          else (0, s))"

text \<open>
  The longest prefix that is an unsigned decimal literal (\<^verbatim>\<open>12\<close>, \<^verbatim>\<open>12.\<close>, \<^verbatim>\<open>12.5\<close>,
  \<^verbatim>\<open>.5\<close>, each with an optional exponent), its value and the rest of the string.
\<close>

definition parse_unsigned :: "string \<Rightarrow> (rat \<times> string) option" where
  "parse_unsigned s =
     (let ip = takeWhile is_digit s; r1 = dropWhile is_digit s in
      case r1 of
        [] \<Rightarrow> if ip = [] then None else Some (of_nat (digits_val ip), r1)
      | c # r2 \<Rightarrow>
          if c = CHR ''.'' then
            (let fp = takeWhile is_digit r2; r3 = dropWhile is_digit r2 in
             if ip = [] \<and> fp = [] then None
             else (let (e, r4) = parse_exponent r3 in
                   Some ((of_nat (digits_val ip) + of_nat (digits_val fp) / 10 ^ length fp)
                           * exp10 e, r4)))
          else if ip = [] then None
          else (let (e, r4) = parse_exponent r1 in
                Some (of_nat (digits_val ip) * exp10 e, r4)))"

text \<open>The same with a sign, and with the literal \<^verbatim>\<open>Infinity\<close>.\<close>

definition parse_magnitude :: "string \<Rightarrow> (jsnum \<times> string) option" where
  "parse_magnitude s =
     (if starts_with s ''Infinity'' then Some (PInf, drop 8 s)
      else map_option (\<lambda>(r, rest). (Fin r, rest)) (parse_unsigned s))"

definition parse_decimal :: "string \<Rightarrow> (jsnum \<times> string) option" where
  "parse_decimal s =
     (case s of
        [] \<Rightarrow> None
      | c # t \<Rightarrow>
          if c = CHR ''-'' then
            map_option (\<lambda>(v, rest). (js_mul (Fin (- 1)) v, rest)) (parse_magnitude t)
          else if c = CHR ''+'' then parse_magnitude t
          else parse_magnitude s)"

text \<open>\<^verbatim>\<open>parseFloat\<close> of a string: leading white space is skipped, what follows the
  longest numeric prefix is ignored, and no numeric prefix gives \<^verbatim>\<open>NaN\<close>.\<close>

definition parseFloat_str :: "string \<Rightarrow> jsnum" where
  "parseFloat_str s =
     (case parse_decimal (dropWhile is_space s) of None \<Rightarrow> NaN | Some (v, _) \<Rightarrow> v)"

text \<open>\<^verbatim>\<open>parseInt(s, 10)\<close>: an optional sign and the leading decimal digits.\<close>

definition parseInt10 :: "string \<Rightarrow> jsnum" where
  "parseInt10 s =
     (let t = dropWhile is_space s;
          neg = (case t of [] \<Rightarrow> False | x # _ \<Rightarrow> x = CHR ''-'');
          u = (case t of [] \<Rightarrow> t
               | x # v \<Rightarrow> if x = CHR ''-'' \<or> x = CHR ''+'' then v else t);
          ds = takeWhile is_digit u
      in if ds = [] then NaN
         else Fin (if neg then - of_nat (digits_val ds) else of_nat (digits_val ds)))"

text \<open>Literals with a radix prefix, which only \<^verbatim>\<open>Number\<close> reads.\<close>

definition radix_digit :: "char \<Rightarrow> nat option" where
  "radix_digit c =
     map_of (zip ''0123456789abcdefABCDEF''
       [0, 1, 2, 3, 4, 5, 6, 7, 8, 9, 10, 11, 12, 13, 14, 15, 10, 11, 12, 13, 14, 15]) c"

definition radix_val :: "nat \<Rightarrow> string \<Rightarrow> jsnum" where
  "radix_val b ds =
     (if ds \<noteq> [] \<and> list_all (\<lambda>c. case radix_digit c of None \<Rightarrow> False | Some d \<Rightarrow> d < b) ds
      then Fin (of_nat (foldl (\<lambda>a c. b * a + the (radix_digit c)) 0 ds))
      else NaN)"

definition StringToNumber :: "string \<Rightarrow> jsnum" where
  "StringToNumber s =
     (let t = trim s in
      if t = [] then Fin 0
      else if starts_with t ''0x'' \<or> starts_with t ''0X'' then radix_val 16 (drop 2 t)
      else if starts_with t ''0o'' \<or> starts_with t ''0O'' then radix_val 8 (drop 2 t)
      else if starts_with t ''0b'' \<or> starts_with t ''0B'' then radix_val 2 (drop 2 t)
      else (case parse_decimal t of
              None \<Rightarrow> NaN
            | Some (v, rest) \<Rightarrow> if rest = [] then v else NaN))"

subsection \<open>Regular expressions\<close>

text \<open>
  The patterns of the program use digits (\<^verbatim>\<open>\d\<close>), white space (\<^verbatim>\<open>\s\<close>), literal
  characters, sequence, alternation, greedy repetition, capture groups and the word
  boundary \<^verbatim>\<open>\b\<close>. A match state is the character before the position, the text from
  the position on, and the captures so far (the latest first). \<open>rmatch\<close> lists the
  states a pattern can end in, in the order the backtracking matcher of JavaScript
  tries them: the left alternative before the right one, one more repetition before
  stopping. A repetition whose body matched the empty string is not continued.
\<close>

datatype regex =
    Eps
  | Digit
  | Space
  | Chr char
  | Seq regex regex
  | Alt regex regex
  | Star regex
  | Group nat regex
  | WordB

abbreviation Plus :: "regex \<Rightarrow> regex" where
  "Plus r \<equiv> Seq r (Star r)"

abbreviation Opt :: "regex \<Rightarrow> regex" where
  "Opt r \<equiv> Alt r Eps"

type_synonym mstate = "char option \<times> string \<times> (nat \<times> string) list"

definition word_at :: "char option \<Rightarrow> bool" where
  "word_at c = (case c of None \<Rightarrow> False | Some x \<Rightarrow> is_word x)"

definition chr_eq :: "bool \<Rightarrow> char \<Rightarrow> char \<Rightarrow> bool" where
  "chr_eq ignore_case a c =
     (if ignore_case then toLowerCase_char a = toLowerCase_char c else a = c)"

fun rmatch :: "bool \<Rightarrow> regex \<Rightarrow> mstate \<Rightarrow> mstate list" where
  "rmatch i Eps st = [st]"
| "rmatch i Digit (p, s, g) =
     (case s of [] \<Rightarrow> [] | c # cs \<Rightarrow> if is_digit c then [(Some c, cs, g)] else [])"
| "rmatch i Space (p, s, g) =
     (case s of [] \<Rightarrow> [] | c # cs \<Rightarrow> if is_space c then [(Some c, cs, g)] else [])"
| "rmatch i (Chr a) (p, s, g) =
     (case s of [] \<Rightarrow> [] | c # cs \<Rightarrow> if chr_eq i a c then [(Some c, cs, g)] else [])"
| "rmatch i (Seq a b) st = concat (map (rmatch i b) (rmatch i a st))"
| "rmatch i (Alt a b) st = rmatch i a st @ rmatch i b st"
| "rmatch i (Star a) st =
     concat (map (\<lambda>st'. if length (fst (snd st')) < length (fst (snd st))
                         then rmatch i (Star a) st' else [])
                 (rmatch i a st)) @ [st]"
| "rmatch i (Group n a) (p, s, g) =
     map (\<lambda>(p', s', g'). (p', s', (n, take (length s - length s') s) # g'))
         (rmatch i a (p, s, g))"
| "rmatch i WordB (p, s, g) =
     (if word_at p \<noteq> word_at (case s of [] \<Rightarrow> None | c # _ \<Rightarrow> Some c)
      then [(p, s, g)] else [])"

text \<open>
  \<^verbatim>\<open>text.match(pattern)\<close> without the global flag: the first position, from the left,
  at which the pattern matches, and there the first way it matches. The result is the
  captures; \<open>None\<close> is JavaScript's \<^verbatim>\<open>null\<close>.
\<close>

fun rsearch :: "bool \<Rightarrow> regex \<Rightarrow> char option \<Rightarrow> string \<Rightarrow> (nat \<times> string) list option" where
  "rsearch i r p [] = (case rmatch i r (p, [], []) of [] \<Rightarrow> None | st # _ \<Rightarrow> Some (snd (snd st)))"
| "rsearch i r p (c # cs) =
     (case rmatch i r (p, c # cs, []) of
        [] \<Rightarrow> rsearch i r (Some c) cs
      | st # _ \<Rightarrow> Some (snd (snd st)))"

definition str_match :: "string \<Rightarrow> bool \<Rightarrow> regex \<Rightarrow> (nat \<times> string) list option" where
  "str_match s ignore_case r = rsearch ignore_case r None s"

text \<open>\<^verbatim>\<open>m[n]\<close> of a match: the text the group captured last.\<close>

definition capture :: "(nat \<times> string) list \<Rightarrow> nat \<Rightarrow> string" where
  "capture m n = (case map_of m n of None \<Rightarrow> [] | Some s \<Rightarrow> s)"

fun lit :: "string \<Rightarrow> regex" where
  "lit [] = Eps"
| "lit [c] = Chr c"
| "lit (c # cs) = Seq (Chr c) (lit cs)"

section \<open>The offline estimator (\<^verbatim>\<open>src/src/App.jsx\<close>)\<close>

text \<open>
  The reference table \<^verbatim>\<open>MINI_DB\<close>, in its declaration order. The fields \<^verbatim>\<open>key\<close>,
  \<^verbatim>\<open>kcal\<close>, \<^verbatim>\<open>p\<close>, \<^verbatim>\<open>c\<close>, \<^verbatim>\<open>f\<close> and \<^verbatim>\<open>unit\<close> of an entry carry the prefix \<open>e_\<close>.
\<close>

record food_entry =
  e_key :: string
  e_kcal :: jsnum
  e_p :: jsnum
  e_c :: jsnum
  e_f :: jsnum
  e_unit :: string

definition MINI_DB :: "food_entry list" where
  "MINI_DB =
    [\<lparr>e_key = ''roasted chicken breast'', e_kcal = Fin 165, e_p = Fin 31, e_c = Fin 0, e_f = Fin 3.6,
       e_unit = ''per 100g''\<rparr>,
     \<lparr>e_key = ''banana'', e_kcal = Fin 105, e_p = Fin 1.3, e_c = Fin 27, e_f = Fin 0.3,
       e_unit = ''per medium''\<rparr>,
     \<lparr>e_key = ''oat milk'', e_kcal = Fin 120, e_p = Fin 3, e_c = Fin 16, e_f = Fin 5,
       e_unit = ''per 250ml''\<rparr>,
     \<lparr>e_key = ''cooked rice'', e_kcal = Fin 206, e_p = Fin 4.3, e_c = Fin 45, e_f = Fin 0.4,
       e_unit = ''per cup''\<rparr>,
     \<lparr>e_key = ''avocado'', e_kcal = Fin 240, e_p = Fin 3, e_c = Fin 12.5, e_f = Fin 22,
       e_unit = ''per fruit''\<rparr>,
     \<lparr>e_key = ''egg'', e_kcal = Fin 78, e_p = Fin 6, e_c = Fin 0.6, e_f = Fin 5,
       e_unit = ''per egg''\<rparr>,
     \<lparr>e_key = ''olive oil tbsp'', e_kcal = Fin 119, e_p = Fin 0, e_c = Fin 0, e_f = Fin 13.5,
       e_unit = ''per tbsp''\<rparr>,
     \<lparr>e_key = ''protein bar'', e_kcal = Fin 200, e_p = Fin 20, e_c = Fin 20, e_f = Fin 7,
       e_unit = ''per bar''\<rparr>,
     \<lparr>e_key = ''greek yogurt 0%'', e_kcal = Fin 59, e_p = Fin 10, e_c = Fin 3.6, e_f = Fin 0.4,
       e_unit = ''per 100g''\<rparr>,
     \<lparr>e_key = ''pasta cooked'', e_kcal = Fin 220, e_p = Fin 8, e_c = Fin 43, e_f = Fin 1.3,
       e_unit = ''per cup''\<rparr>]"

record macros =
  protein_g :: jsnum
  carbs_g :: jsnum
  fat_g :: jsnum

record food_estimate =
  description :: string
  kcal :: jsnum
  macros :: macros
  source :: string

text \<open>The quantity pattern \<^verbatim>\<open>/(\d+\.?\d*)/\<close>.\<close>

definition qty_pattern :: regex where
  "qty_pattern = Group 1 (Seq (Plus Digit) (Seq (Opt (Chr CHR ''.'')) (Star Digit)))"

definition estimateFood :: "string \<Rightarrow> food_estimate" where
  "estimateFood desc =
     (let d = trim (toLowerCase desc) in
      case find (\<lambda>x. str_includes d (e_key x)) MINI_DB of
        Some hit \<Rightarrow>
          (let qty = (case str_match d False qty_pattern of
                        None \<Rightarrow> Fin 1
                      | Some qtyMatch \<Rightarrow> parseFloat_str (capture qtyMatch 1));
               kcal = js_mul (e_kcal hit) qty
           in \<lparr>description = desc, kcal = kcal,
                macros = \<lparr>protein_g = js_mul (e_p hit) qty, carbs_g = js_mul (e_c hit) qty,
                          fat_g = js_mul (e_f hit) qty\<rparr>,
                source = ''estimation ('' @ e_unit hit @ '')''\<rparr>)
      | None \<Rightarrow>
          if str_includes d ''chicken'' then
            \<lparr>description = desc, kcal = Fin 250,
             macros = \<lparr>protein_g = Fin 40, carbs_g = Fin 0, fat_g = Fin 8\<rparr>,
             source = ''estimate''\<rparr>
          else if str_includes d ''beef'' then
            \<lparr>description = desc, kcal = Fin 300,
             macros = \<lparr>protein_g = Fin 30, carbs_g = Fin 0, fat_g = Fin 20\<rparr>,
             source = ''estimate''\<rparr>
          else if str_includes d ''salad'' then
            \<lparr>description = desc, kcal = Fin 180,
             macros = \<lparr>protein_g = Fin 6, carbs_g = Fin 12, fat_g = Fin 10\<rparr>,
             source = ''estimate''\<rparr>
          else if str_includes d ''sandwich'' then
            \<lparr>description = desc, kcal = Fin 350,
             macros = \<lparr>protein_g = Fin 15, carbs_g = Fin 40, fat_g = Fin 12\<rparr>,
             source = ''estimate''\<rparr>
          else
            \<lparr>description = desc, kcal = Fin 250,
             macros = \<lparr>protein_g = Fin 8, carbs_g = Fin 30, fat_g = Fin 10\<rparr>,
             source = ''generic estimate''\<rparr>)"

section \<open>The nutrition lookup (\<^verbatim>\<open>Api/nutrition.js\<close>)\<close>

subsection \<open>JSON values and their coercions\<close>

text \<open>
  What \<^verbatim>\<open>r.json()\<close> delivers, and \<^verbatim>\<open>undefined\<close> for a property that is not there.
  An object is the list of its properties, one entry for each name.
\<close>

datatype jsval =
    JUndefined
  | JNull
  | JBool bool
  | JNum jsnum
  | JStr string
  | JArr "jsval list"
  | JObj "(string \<times> jsval) list"

datatype js_error = NetworkError | SyntaxError | TypeError

fun truthy :: "jsval \<Rightarrow> bool" where
  "truthy JUndefined = False"
| "truthy JNull = False"
| "truthy (JBool b) = b"
| "truthy (JNum n) = num_truthy n"
| "truthy (JStr s) = (s \<noteq> [])"
| "truthy (JArr _) = True"
| "truthy (JObj _) = True"

text \<open>\<^verbatim>\<open>a || b\<close> on values.\<close>

definition js_or :: "jsval \<Rightarrow> jsval \<Rightarrow> jsval" where
  "js_or a b = (if truthy a then a else b)"

text \<open>
  Reading a property. \<open>get_prop\<close> is \<^verbatim>\<open>v.name\<close>, which throws a \<^verbatim>\<open>TypeError\<close> on
  \<^verbatim>\<open>null\<close> and \<^verbatim>\<open>undefined\<close>; \<open>js_prop\<close> is \<^verbatim>\<open>v?.name\<close>, and stands for \<^verbatim>\<open>v.name\<close>
  too where the program has already found \<open>v\<close> truthy. None of the names the program
  reads is a built-in property of a string, a number, a boolean or an array.
\<close>

fun js_prop :: "jsval \<Rightarrow> string \<Rightarrow> jsval" where
  "js_prop (JObj kvs) k = (case map_of kvs k of None \<Rightarrow> JUndefined | Some v \<Rightarrow> v)"
| "js_prop _ k = JUndefined"

fun get_prop :: "jsval \<Rightarrow> string \<Rightarrow> js_error + jsval" where
  "get_prop JUndefined k = Inl TypeError"
| "get_prop JNull k = Inl TypeError"
| "get_prop v k = Inr (js_prop v k)"

text \<open>
  \<^verbatim>\<open>Number(v)\<close>. An array converts through its string, the elements joined by commas
  with \<^verbatim>\<open>null\<close> and \<^verbatim>\<open>undefined\<close> as empty strings: no element gives 0, one element
  gives what the element's string gives, and a comma gives \<^verbatim>\<open>NaN\<close>. A number converts
  to its string and back unchanged.
\<close>

fun ToNumber :: "jsval \<Rightarrow> jsnum" where
  "ToNumber JUndefined = NaN"
| "ToNumber JNull = Fin 0"
| "ToNumber (JBool b) = Fin (if b then 1 else 0)"
| "ToNumber (JNum n) = n"
| "ToNumber (JStr s) = StringToNumber s"
| "ToNumber (JObj _) = NaN"
| "ToNumber (JArr []) = Fin 0"
| "ToNumber (JArr [x]) =
     (case x of
        JUndefined \<Rightarrow> Fin 0
      | JNull \<Rightarrow> Fin 0
      | JBool _ \<Rightarrow> NaN
      | JObj _ \<Rightarrow> NaN
      | _ \<Rightarrow> ToNumber x)"
| "ToNumber (JArr (x # y # zs)) = NaN"

text \<open>
  \<^verbatim>\<open>parseFloat(v)\<close>: the value is converted to its string first. Of an array only the
  first element counts, since a comma ends every numeric prefix.
\<close>

fun parseFloat :: "jsval \<Rightarrow> jsnum" where
  "parseFloat (JStr s) = parseFloat_str s"
| "parseFloat (JNum n) = n"
| "parseFloat (JArr (x # xs)) =
     (case x of
        JStr _ \<Rightarrow> parseFloat x
      | JNum _ \<Rightarrow> parseFloat x
      | JArr _ \<Rightarrow> parseFloat x
      | _ \<Rightarrow> NaN)"
| "parseFloat _ = NaN"

text \<open>The helpers \<^verbatim>\<open>num\<close> and \<^verbatim>\<open>round2\<close> at the end of the file.\<close>

definition num :: "jsval \<Rightarrow> jsnum" where
  "num v = (if truthy v then ToNumber v else Fin 0)"

definition EPSILON :: jsnum where
  "EPSILON = Fin (1 / 2 ^ 52)"

definition round2 :: "jsnum \<Rightarrow> jsnum" where
  "round2 v = js_div (Math_round (js_mul (js_add v EPSILON) (Fin 100))) (Fin 100)"

subsection \<open>The outside world\<close>

text \<open>
  An outbound request is its endpoint with what the program puts into it: the query
  (URL-encoded into the address) and, for the exact-match service, the key sent as
  \<^verbatim>\<open>X-Api-Key\<close>. \<^verbatim>\<open>fetch\<close> either rejects (\<open>Rejected\<close>: the network failed) or
  delivers a response: its \<^verbatim>\<open>ok\<close> flag, and what \<^verbatim>\<open>r.json()\<close> gives for its body,
  \<open>None\<close> when the body is not JSON and \<^verbatim>\<open>r.json()\<close> rejects.

  Every client returns its result together with the requests it issued, in order. A
  thrown exception (a rejected promise) is \<open>Inl\<close>; \<^verbatim>\<open>null\<close> is \<open>Inr None\<close>.
\<close>

datatype request =
    ApiNinjasNutrition string string
  | OpenFoodFactsSearch string

datatype fetch_result = Rejected | Response bool "jsval option"

type_synonym transport = "request \<Rightarrow> fetch_result"

record totals =
  kcal :: jsnum
  protein_g :: jsnum
  carbs_g :: jsnum
  fat_g :: jsnum

record estimate = totals +
  source :: string

type_synonym 'a client_result = "(js_error + 'a) \<times> request list"

subsection \<open>The exact-match client\<close>

text \<open>The loop of \<^verbatim>\<open>fetchFromApiNinjas\<close> over the items, adding to the totals.\<close>

fun sum_items :: "jsval list \<Rightarrow> totals \<Rightarrow> js_error + totals" where
  "sum_items [] t = Inr t"
| "sum_items (it # items) t =
     (case get_prop it ''calories'' of
        Inl e \<Rightarrow> Inl e
      | Inr calories \<Rightarrow>
     (case get_prop it ''protein_g'' of
        Inl e \<Rightarrow> Inl e
      | Inr protein \<Rightarrow>
     (case get_prop it ''carbohydrates_total_g'' of
        Inl e \<Rightarrow> Inl e
      | Inr carbs \<Rightarrow>
     (case get_prop it ''fat_total_g'' of
        Inl e \<Rightarrow> Inl e
      | Inr fat \<Rightarrow>
          sum_items items
            \<lparr>totals.kcal = js_add (totals.kcal t) (num calories),
             protein_g = js_add (totals.protein_g t) (num protein),
             carbs_g = js_add (totals.carbs_g t) (num carbs),
             fat_g = js_add (totals.fat_g t) (num fat)\<rparr>))))"

definition zero_totals :: totals where
  "zero_totals = \<lparr>totals.kcal = Fin 0, protein_g = Fin 0, carbs_g = Fin 0, fat_g = Fin 0\<rparr>"

definition fetchFromApiNinjas ::
  "transport \<Rightarrow> string \<Rightarrow> string option \<Rightarrow> totals option client_result" where
  "fetchFromApiNinjas fetch query key =
     (case key of
        None \<Rightarrow> (Inr None, [])
      | Some k \<Rightarrow>
          if k = [] then (Inr None, [])
          else
            (let req = ApiNinjasNutrition query k in
             case fetch req of
               Rejected \<Rightarrow> (Inl NetworkError, [req])
             | Response ok body \<Rightarrow>
                 if \<not> ok then (Inr None, [req])
                 else
                   (case body of
                      None \<Rightarrow> (Inl SyntaxError, [req])
                    | Some (JArr items) \<Rightarrow>
                        if items = [] then (Inr None, [req])
                        else
                          (case sum_items items zero_totals of
                             Inl e \<Rightarrow> (Inl e, [req])
                           | Inr t \<Rightarrow>
                               if js_le (totals.kcal t) (Fin 0) then (Inr None, [req])
                               else (Inr (Some t), [req]))
                    | Some _ \<Rightarrow> (Inr None, [req]))))"

subsection \<open>The community-database client\<close>

text \<open>
  The patterns of \<^verbatim>\<open>portionFromQueryOrProduct\<close>, all with the flag \<^verbatim>\<open>i\<close>:
  \<^verbatim>\<open>/(\d+(?:\.\d+)?)\s*(g|gram|grams)\b/i\<close> for the query,
  \<^verbatim>\<open>/(\d+(?:\.\d+)?)\s*g/i\<close> for \<^verbatim>\<open>serving_size\<close> and \<^verbatim>\<open>quantity\<close>, and
  \<^verbatim>\<open>/(\d+)\s*x\s*(\d+(?:\.\d+)?)\s*g/i\<close> for a multipack \<^verbatim>\<open>quantity\<close>.
\<close>

definition decimal_pattern :: regex where
  "decimal_pattern = Seq (Plus Digit) (Opt (Seq (Chr CHR ''.'') (Plus Digit)))"

definition query_grams_pattern :: regex where
  "query_grams_pattern =
     Seq (Group 1 decimal_pattern)
       (Seq (Star Space)
         (Seq (Group 2 (Alt (lit ''g'') (Alt (lit ''gram'') (lit ''grams'')))) WordB))"

definition grams_pattern :: regex where
  "grams_pattern = Seq (Group 1 decimal_pattern) (Seq (Star Space) (Chr CHR ''g''))"

definition multipack_pattern :: regex where
  "multipack_pattern =
     Seq (Group 1 (Plus Digit))
       (Seq (Star Space)
         (Seq (Chr CHR ''x'')
           (Seq (Star Space)
             (Seq (Group 2 decimal_pattern) (Seq (Star Space) (Chr CHR ''g''))))))"

text \<open>
  \<^verbatim>\<open>portionFromQueryOrProduct\<close>: each \<^verbatim>\<open>return\<close> of the source is a branch, in the
  source's order. \<^verbatim>\<open>product.quantity.match\<close> is a call of a string method, so a truthy
  \<^verbatim>\<open>quantity\<close> that is not a string throws a \<^verbatim>\<open>TypeError\<close>.
\<close>

definition portionFromQueryOrProduct :: "string \<Rightarrow> jsval \<Rightarrow> js_error + jsnum option" where
  "portionFromQueryOrProduct query product =
     (case str_match query True query_grams_pattern of
        Some m \<Rightarrow> Inr (Some (parseFloat_str (capture m 1)))
      | None \<Rightarrow>
     (case (case js_prop product ''serving_size'' of
              JStr ss \<Rightarrow> str_match ss True grams_pattern
            | _ \<Rightarrow> None) of
        Some mg \<Rightarrow> Inr (Some (parseFloat_str (capture mg 1)))
      | None \<Rightarrow>
          if truthy (js_prop product ''product_quantity'')
             \<and> \<not> isNaN (parseFloat (js_prop product ''product_quantity''))
             \<and> js_less (Fin 0) (parseFloat (js_prop product ''product_quantity''))
          then Inr (Some (parseFloat (js_prop product ''product_quantity'')))
          else if truthy (js_prop product ''quantity'') then
            (case js_prop product ''quantity'' of
               JStr quantity \<Rightarrow>
                 (case str_match quantity True grams_pattern of
                    Some q1 \<Rightarrow> Inr (Some (parseFloat_str (capture q1 1)))
                  | None \<Rightarrow>
                      (case str_match quantity True multipack_pattern of
                         Some q2 \<Rightarrow>
                           Inr (Some (js_mul (parseInt10 (capture q2 1))
                                             (parseFloat_str (capture q2 2))))
                       | None \<Rightarrow> Inr None))
             | _ \<Rightarrow> Inl TypeError)
          else Inr None))"

text \<open>\<^verbatim>\<open>hasNutriments\<close> returns the value of its \<^verbatim>\<open>||\<close> chain; its callers test it.\<close>

definition hasNutriments :: "jsval \<Rightarrow> jsval" where
  "hasNutriments product =
     (let n = js_or (js_prop product ''nutriments'') (JObj []) in
      js_or (js_prop n ''energy-kcal_100g'')
        (js_or (js_prop n ''energy_100g'')
          (js_or (js_prop n ''proteins_100g'')
            (js_or (js_prop n ''carbohydrates_100g'') (js_prop n ''fat_100g'')))))"

text \<open>\<^verbatim>\<open>products.find(hasNutriments) || products[0]\<close>.\<close>

definition pick_product :: "jsval list \<Rightarrow> jsval" where
  "pick_product products =
     js_or (case find (\<lambda>x. truthy (hasNutriments x)) products of
              None \<Rightarrow> JUndefined
            | Some x \<Rightarrow> x)
           (case products of [] \<Rightarrow> JUndefined | x # _ \<Rightarrow> x)"

text \<open>
  The energy of 100 g in kcal: the field \<^verbatim>\<open>energy-kcal_100g\<close>, and when that is falsy
  and \<^verbatim>\<open>energy_100g\<close> (kJ) is not, the latter divided by 4.184 and rounded.
\<close>

definition kcalPer100 :: "jsval \<Rightarrow> jsnum" where
  "kcalPer100 nutr =
     (if \<not> num_truthy (num (js_prop nutr ''energy-kcal_100g'')) then
        (if num_truthy (num (js_prop nutr ''energy_100g''))
         then Math_round (js_div (num (js_prop nutr ''energy_100g'')) (Fin 4.184))
         else num (js_prop nutr ''energy-kcal_100g''))
      else num (js_prop nutr ''energy-kcal_100g''))"

text \<open>\<^verbatim>\<open>a || b\<close> on numbers.\<close>

definition num_or :: "jsnum \<Rightarrow> jsnum \<Rightarrow> jsnum" where
  "num_or a b = (if num_truthy a then a else b)"

text \<open>
  What \<^verbatim>\<open>fetchFromOpenFoodFacts\<close> does with the product it picked: the energy, the
  portion, the scaling.
\<close>

definition scale_product :: "string \<Rightarrow> jsval \<Rightarrow> js_error + totals option" where
  "scale_product query product =
     (let nutr = js_or (js_prop product ''nutriments'') (JObj []) in
      if \<not> num_truthy (kcalPer100 nutr) then Inr None
      else
        (case portionFromQueryOrProduct query product of
           Inl e \<Rightarrow> Inl e
         | Inr portion \<Rightarrow>
             (let portionG = (case portion of None \<Rightarrow> Fin 100 | Some g \<Rightarrow> num_or g (Fin 100));
                  factor = js_div portionG (Fin 100)
              in Inr (Some
                   \<lparr>totals.kcal = Math_round (js_mul (kcalPer100 nutr) factor),
                    protein_g = round2 (js_mul (num (js_prop nutr ''proteins_100g'')) factor),
                    carbs_g = round2 (js_mul (num_or (num (js_prop nutr ''carbohydrates_100g''))
                                                (num (js_prop nutr ''carbohydrates_total_g'')))
                                             factor),
                    fat_g = round2 (js_mul (num (js_prop nutr ''fat_100g'')) factor)\<rparr>))))"

definition fetchFromOpenFoodFacts :: "transport \<Rightarrow> string \<Rightarrow> totals option client_result" where
  "fetchFromOpenFoodFacts fetch query =
     (let req = OpenFoodFactsSearch query in
      case fetch req of
        Rejected \<Rightarrow> (Inl NetworkError, [req])
      | Response ok body \<Rightarrow>
          if \<not> ok then (Inr None, [req])
          else
            (case body of
               None \<Rightarrow> (Inl SyntaxError, [req])
             | Some data \<Rightarrow>
                 (let products = (case js_prop data ''products'' of JArr ps \<Rightarrow> ps | _ \<Rightarrow> []) in
                  if products = [] then (Inr None, [req])
                  else if \<not> (truthy (pick_product products)
                             \<and> truthy (hasNutriments (pick_product products)))
                  then (Inr None, [req])
                  else (scale_product query (pick_product products), [req]))))"

subsection \<open>The handler\<close>

text \<open>
  The request carries the parameters \<^verbatim>\<open>q\<close> and \<^verbatim>\<open>query\<close>, each a string or missing
  (a repeated parameter, which arrives as an array, is outside the model). The response
  is a status with a JSON body: an estimate, the fixed message, or the text of what was
  thrown.
\<close>

datatype req = Req "string option" "string option"

datatype http_body = Estimate estimate | ErrorMessage string | ErrorThrown js_error

datatype http_response = Http nat http_body

definition param_or :: "string option \<Rightarrow> string \<Rightarrow> string" where
  "param_or a b = (case a of None \<Rightarrow> b | Some s \<Rightarrow> if s = [] then b else s)"

definition tagged :: "totals \<Rightarrow> string \<Rightarrow> estimate" where
  "tagged t tag = totals.extend t \<lparr>source = tag\<rparr>"

definition none_estimate :: estimate where
  "none_estimate =
     \<lparr>totals.kcal = Fin 0, protein_g = Fin 0, carbs_g = Fin 0, fat_g = Fin 0, source = ''none''\<rparr>"

text \<open>\<^verbatim>\<open>x && x.kcal > 0\<close> on a client's result.\<close>

definition usable :: "totals option \<Rightarrow> bool" where
  "usable r = (case r of None \<Rightarrow> False | Some t \<Rightarrow> js_less (Fin 0) (totals.kcal t))"

definition handler :: "transport \<Rightarrow> string option \<Rightarrow> req \<Rightarrow> http_response \<times> request list" where
  "handler fetch API_NINJAS_KEY request =
     (case request of Req q_param query_param \<Rightarrow>
      (let q = trim (param_or q_param (param_or query_param [])) in
       if q = [] then (Http 400 (ErrorMessage ''Missing ?q=''), [])
       else
         (case fetchFromApiNinjas fetch q API_NINJAS_KEY of
            (Inl err, calls1) \<Rightarrow> (Http 500 (ErrorThrown err), calls1)
          | (Inr ninjas, calls1) \<Rightarrow>
              (case (if usable ninjas then ninjas else None) of
                 Some t \<Rightarrow> (Http 200 (Estimate (tagged t ''api_ninjas'')), calls1)
               | None \<Rightarrow>
                   (case fetchFromOpenFoodFacts fetch q of
                      (Inl err, calls2) \<Rightarrow> (Http 500 (ErrorThrown err), calls1 @ calls2)
                    | (Inr off, calls2) \<Rightarrow>
                        (case (if usable off then off else None) of
                           Some t \<Rightarrow>
                             (Http 200 (Estimate (tagged t ''open_food_facts'')), calls1 @ calls2)
                         | None \<Rightarrow> (Http 200 (Estimate none_estimate), calls1 @ calls2)))))))"

subsection \<open>The single-source handler\<close>

text \<open>
  The file begins with another handler for the same route (its lines 2 to 26), which
  asks the exact-match service only: no client functions, no fallback. It does not trim
  the query, it answers 500 itself when the key is missing, it throws on a response that
  is not \<^verbatim>\<open>ok\<close>, and it answers the sums (whatever they are) with the items.
\<close>

datatype upstream_body = Totals totals "jsval list" | Failure string | Thrown js_error | Upstream

datatype upstream_response = Answer nat upstream_body

fun sum_items_or0 :: "jsval list \<Rightarrow> totals \<Rightarrow> js_error + totals" where
  "sum_items_or0 [] t = Inr t"
| "sum_items_or0 (it # items) t =
     (case get_prop it ''calories'' of
        Inl e \<Rightarrow> Inl e
      | Inr calories \<Rightarrow>
     (case get_prop it ''protein_g'' of
        Inl e \<Rightarrow> Inl e
      | Inr protein \<Rightarrow>
     (case get_prop it ''carbohydrates_total_g'' of
        Inl e \<Rightarrow> Inl e
      | Inr carbs \<Rightarrow>
     (case get_prop it ''fat_total_g'' of
        Inl e \<Rightarrow> Inl e
      | Inr fat \<Rightarrow>
          sum_items_or0 items
            \<lparr>totals.kcal = js_add (totals.kcal t) (ToNumber (js_or calories (JNum (Fin 0)))),
             protein_g = js_add (totals.protein_g t) (ToNumber (js_or protein (JNum (Fin 0)))),
             carbs_g = js_add (totals.carbs_g t) (ToNumber (js_or carbs (JNum (Fin 0)))),
             fat_g = js_add (totals.fat_g t) (ToNumber (js_or fat (JNum (Fin 0))))\<rparr>))))"

definition handler_single_source ::
  "transport \<Rightarrow> string option \<Rightarrow> req \<Rightarrow> upstream_response \<times> request list" where
  "handler_single_source fetch API_NINJAS_KEY request =
     (case request of Req q_param query_param \<Rightarrow>
      (let q = param_or q_param (param_or query_param []) in
       if q = [] then (Answer 400 (Failure ''Missing ?q=''), [])
       else
         (case API_NINJAS_KEY of
            None \<Rightarrow> (Answer 500 (Failure ''Missing API_NINJAS_KEY env var''), [])
          | Some KEY \<Rightarrow>
              if KEY = [] then (Answer 500 (Failure ''Missing API_NINJAS_KEY env var''), [])
              else
                (let call = ApiNinjasNutrition q KEY in
                 case fetch call of
                   Rejected \<Rightarrow> (Answer 500 (Thrown NetworkError), [call])
                 | Response ok body \<Rightarrow>
                     if \<not> ok then (Answer 500 Upstream, [call])
                     else
                       (case body of
                          None \<Rightarrow> (Answer 500 (Thrown SyntaxError), [call])
                        | Some parsed \<Rightarrow>
                            (let items = (case parsed of JArr xs \<Rightarrow> xs | _ \<Rightarrow> []) in
                             case sum_items_or0 items zero_totals of
                               Inl e \<Rightarrow> (Answer 500 (Thrown e), [call])
                             | Inr t \<Rightarrow> (Answer 200 (Totals t items), [call])))))))"

section \<open>The vocabulary of the specification\<close>

text \<open>
  The specification speaks of the first numeric token of a text, integer or decimal.
  \<open>first_number\<close> says it in words: from the first digit of the text, the digits that
  follow, and then a point with the digits after it when a point comes next. It is
  compared with the quantity pattern of the program below.
\<close>

definition number_prefix :: "string \<Rightarrow> string" where
  "number_prefix s =
     takeWhile is_digit s @
       (case dropWhile is_digit s of
          [] \<Rightarrow> []
        | c # u \<Rightarrow> if c = CHR ''.'' then c # takeWhile is_digit u else [])"

definition first_number :: "string \<Rightarrow> string option" where
  "first_number s =
     (case dropWhile (\<lambda>c. \<not> is_digit c) s of
        [] \<Rightarrow> None
      | c # cs \<Rightarrow> Some (number_prefix (c # cs)))"

text \<open>
  The specification names the origin of an estimate \<^emph>\<open>provenance\<close> and gives it six
  values. The program writes the origin into the field \<^verbatim>\<open>source\<close>, with strings of its
  own; \<open>provenance_of\<close> reads them as the specification's values.
\<close>

datatype provenance =
    Local_table
  | Local_heuristic
  | Local_generic
  | Exact_match_api
  | Community_db
  | No_source

definition provenance_of :: "string \<Rightarrow> provenance option" where
  "provenance_of tag =
     (if starts_with tag ''estimation ('' then Some Local_table
      else if tag = ''estimate'' then Some Local_heuristic
      else if tag = ''generic estimate'' then Some Local_generic
      else if tag = ''api_ninjas'' then Some Exact_match_api
      else if tag = ''open_food_facts'' then Some Community_db
      else if tag = ''none'' then Some No_source
      else None)"

text \<open>
  Two conditions of \<^verbatim>\<open>portionFromQueryOrProduct\<close>, as it writes them: the match of
  the gram pattern in a \<^verbatim>\<open>serving_size\<close> that is a string, and a \<^verbatim>\<open>product_quantity\<close>
  that is truthy and parses to a positive number.
\<close>

abbreviation serving_size_match :: "jsval \<Rightarrow> (nat \<times> string) list option" where
  "serving_size_match product \<equiv>
     (case js_prop product ''serving_size'' of
        JStr ss \<Rightarrow> str_match ss True grams_pattern
      | _ \<Rightarrow> None)"

abbreviation package_quantity_positive :: "jsval \<Rightarrow> bool" where
  "package_quantity_positive product \<equiv>
     truthy (js_prop product ''product_quantity'')
     \<and> \<not> isNaN (parseFloat (js_prop product ''product_quantity''))
     \<and> js_less (Fin 0) (parseFloat (js_prop product ''product_quantity''))"

text \<open>
  The positions at which a search tries a pattern, from the left: each with the
  character before it and the text from it on. \<open>pos\<close> is the position of a match state.
\<close>

fun positions :: "char option \<Rightarrow> string \<Rightarrow> (char option \<times> string) list" where
  "positions p [] = [(p, [])]"
| "positions p (c # cs) = (p, c # cs) # positions (Some c) cs"

definition pos :: "mstate \<Rightarrow> char option \<times> string" where
  "pos st = (fst st, fst (snd st))"


text \<open>The sum of one field over the items, each read through \<^verbatim>\<open>num\<close>.\<close>

definition field_sum :: "string \<Rightarrow> jsval list \<Rightarrow> jsnum" where
  "field_sum name items = foldl (\<lambda>a it. js_add a (num (js_prop it name))) (Fin 0) items"

section \<open>Example responses\<close>

text \<open>Transports and products on which the theorems below are instantiated.\<close>

definition items_100_50 :: jsval where
  "items_100_50 =
     JArr [JObj [(''calories'', JNum (Fin 100)), (''protein_g'', JNum (Fin 10))],
           JObj [(''calories'', JNum (Fin 50)), (''protein_g'', JNum (Fin 5))]]"

definition premium_items :: jsval where
  "premium_items =
     JArr [JObj [(''calories'', JNum (Fin 100)),
                 (''protein_g'', JStr ''Only available for premium subscribers.'')]]"

definition chicken_product :: jsval where
  "chicken_product =
     JObj [(''nutriments'', JObj [(''energy-kcal_100g'', JNum (Fin 165))]),
           (''serving_size'', JStr ''85 g'')]"

definition kj_product :: jsval where
  "kj_product = JObj [(''nutriments'', JObj [(''energy_100g'', JNum (Fin 836))])]"

definition products_body :: "jsval list \<Rightarrow> jsval" where
  "products_body products = JObj [(''products'', JArr products)]"

text \<open>Both services answer with data.\<close>

definition both_answer :: transport where
  "both_answer call =
     (case call of
        ApiNinjasNutrition _ _ \<Rightarrow> Response True (Some items_100_50)
      | OpenFoodFactsSearch _ \<Rightarrow> Response True (Some (products_body [chicken_product])))"

text \<open>The exact-match service answers with no item, the community database with data.\<close>

definition only_community_answers :: transport where
  "only_community_answers call =
     (case call of
        ApiNinjasNutrition _ _ \<Rightarrow> Response True (Some (JArr []))
      | OpenFoodFactsSearch _ \<Rightarrow> Response True (Some (products_body [kj_product])))"

text \<open>Both services answer, and neither has data.\<close>

definition nothing_found :: transport where
  "nothing_found call =
     (case call of
        ApiNinjasNutrition _ _ \<Rightarrow> Response True (Some (JArr []))
      | OpenFoodFactsSearch _ \<Rightarrow> Response True (Some (products_body [])))"

text \<open>
  The exact-match service cannot be reached, answers with a failure status, or answers
  with a body that is not JSON; the community database answers with data each time.
\<close>

definition exact_match_unreachable :: transport where
  "exact_match_unreachable call =
     (case call of
        ApiNinjasNutrition _ _ \<Rightarrow> Rejected
      | OpenFoodFactsSearch _ \<Rightarrow> Response True (Some (products_body [chicken_product])))"

definition exact_match_unavailable :: transport where
  "exact_match_unavailable call =
     (case call of
        ApiNinjasNutrition _ _ \<Rightarrow> Response False None
      | OpenFoodFactsSearch _ \<Rightarrow> Response True (Some (products_body [chicken_product])))"

definition exact_match_garbled :: transport where
  "exact_match_garbled call =
     (case call of
        ApiNinjasNutrition _ _ \<Rightarrow> Response True None
      | OpenFoodFactsSearch _ \<Rightarrow> Response True (Some (products_body [chicken_product])))"

section \<open>Properties of the offline estimator\<close>

subsection \<open>The quantity pattern finds the first number of the text\<close>

lemma star_digit_unfold:
  "rmatch i (Star Digit) (p, s, g) =
     (case s of [] \<Rightarrow> [] | c # cs \<Rightarrow> if is_digit c then rmatch i (Star Digit) (Some c, cs, g) else [])
       @ [(p, s, g)]"
  by (cases s) simp_all

lemma star_digit_hd:
  "\<exists>p' rest. rmatch i (Star Digit) (p, s, g) = (p', dropWhile is_digit s, g) # rest"
proof (induction s arbitrary: p)
  case Nil
  show ?case by simp
next
  case (Cons c cs)
  show ?case
  proof (cases "is_digit c")
    case True
    from Cons.IH [of "Some c"] obtain p' rest where
      "rmatch i (Star Digit) (Some c, cs, g) = (p', dropWhile is_digit cs, g) # rest" by blast
    with True show ?thesis by (subst star_digit_unfold) simp
  next
    case False
    then show ?thesis by (subst star_digit_unfold) simp
  qed
qed

lemma plus_digit_hd:
  assumes "is_digit c"
  shows "\<exists>p' rest. rmatch i (Plus Digit) (p, c # cs, g) = (p', dropWhile is_digit cs, g) # rest"
  using assms star_digit_hd [of i "Some c" cs g] by auto

lemma plus_digit_fail:
  "s = [] \<or> \<not> is_digit (hd s) \<Longrightarrow> rmatch i (Plus Digit) (p, s, g) = []"
  by (cases s) auto

lemma frac_hd:
  "\<exists>p' rest. rmatch False (Seq (Opt (Chr CHR ''.'')) (Star Digit)) (p, s, g)
      = (p', (case s of [] \<Rightarrow> [] | c # u \<Rightarrow> if c = CHR ''.'' then dropWhile is_digit u else dropWhile is_digit s), g) # rest"
proof (cases s)
  case Nil
  then show ?thesis by simp
next
  case (Cons c u)
  show ?thesis
  proof (cases "c = CHR ''.''")
    case True
    obtain p' rest where "rmatch False (Star Digit) (Some c, u, g) = (p', dropWhile is_digit u, g) # rest"
      using star_digit_hd by blast
    with Cons True show ?thesis by (simp add: chr_eq_def)
  next
    case False
    obtain p' rest where "rmatch False (Star Digit) (p, s, g) = (p', dropWhile is_digit s, g) # rest"
      using star_digit_hd by blast
    with Cons False show ?thesis by (simp add: chr_eq_def)
  qed
qed

lemma take_prefix_of_append:
  "s = a @ b \<Longrightarrow> take (length s - length b) s = a"
  by simp

lemma number_prefix_split:
  assumes "is_digit c"
  shows "c # cs = number_prefix (c # cs) @
           (case dropWhile is_digit cs of
              [] \<Rightarrow> []
            | d # u \<Rightarrow> if d = CHR ''.'' then dropWhile is_digit u
                       else dropWhile is_digit (dropWhile is_digit cs))"
proof (cases "dropWhile is_digit cs")
  case Nil
  then have tw: "takeWhile is_digit cs = cs"
    by (metis append_Nil2 takeWhile_dropWhile_id)
  show ?thesis by (simp add: number_prefix_def Nil assms tw)
next
  case (Cons d u)
  have cs: "cs = takeWhile is_digit cs @ d # u"
    using Cons by (metis takeWhile_dropWhile_id)
  show ?thesis
  proof (cases "d = CHR ''.''")
    case True
    have "u = takeWhile is_digit u @ dropWhile is_digit u" by simp
    with cs have "cs = takeWhile is_digit cs @ d # takeWhile is_digit u @ dropWhile is_digit u"
      by simp
    then show ?thesis by (simp add: number_prefix_def Cons True assms)
  next
    case False
    have "\<not> is_digit d"
      using Cons by (metis hd_dropWhile list.sel(1) list.distinct(1))
    then have "dropWhile is_digit (d # u) = d # u" by simp
    with cs show ?thesis by (simp add: number_prefix_def Cons False assms)
  qed
qed

lemma qty_pattern_at_digit:
  assumes "is_digit c"
  shows "\<exists>p' s' rest. rmatch False qty_pattern (p, c # cs, [])
            = (p', s', [(1, number_prefix (c # cs))]) # rest"
proof -
  let ?r1 = "dropWhile is_digit cs"
  let ?s2 = "case ?r1 of [] \<Rightarrow> [] | d # u \<Rightarrow> if d = CHR ''.'' then dropWhile is_digit u
                       else dropWhile is_digit ?r1"
  obtain p1 rest1 where a: "rmatch False (Plus Digit) (p, c # cs, []) = (p1, ?r1, []) # rest1"
    using plus_digit_hd [OF assms] by blast
  obtain p2 rest2 where b: "rmatch False (Seq (Opt (Chr CHR ''.'')) (Star Digit)) (p1, ?r1, [])
      = (p2, ?s2, []) # rest2"
    using frac_hd [of p1 ?r1 "[]"] by blast
  have "\<exists>rest. rmatch False (Seq (Plus Digit) (Seq (Opt (Chr CHR ''.'')) (Star Digit))) (p, c # cs, [])
      = (p2, ?s2, []) # rest"
    using a b by (simp del: rmatch.simps(5-7) add: rmatch.simps(5) [of False "Plus Digit"])
  then obtain rest where c: "rmatch False (Seq (Plus Digit) (Seq (Opt (Chr CHR ''.'')) (Star Digit))) (p, c # cs, [])
      = (p2, ?s2, []) # rest" by blast
  have "take (length (c # cs) - length ?s2) (c # cs) = number_prefix (c # cs)"
    by (rule take_prefix_of_append) (rule number_prefix_split [OF assms])
  with c show ?thesis
    unfolding qty_pattern_def by (simp del: rmatch.simps(5-7))
qed

lemma qty_pattern_no_digit:
  assumes "s = [] \<or> \<not> is_digit (hd s)"
  shows "rmatch False qty_pattern (p, s, []) = []"
proof -
  have "rmatch False (Plus Digit) (p, s, []) = []"
    using assms by (rule plus_digit_fail)
  then show ?thesis
    unfolding qty_pattern_def by (simp del: rmatch.simps(6-7))
qed

lemma rsearch_qty_pattern:
  "rsearch False qty_pattern p s =
     (case dropWhile (\<lambda>c. \<not> is_digit c) s of
        [] \<Rightarrow> None
      | c # cs \<Rightarrow> Some [(1, number_prefix (c # cs))])"
proof (induction s arbitrary: p)
  case Nil
  show ?case by (simp add: qty_pattern_no_digit)
next
  case (Cons c cs)
  show ?case
  proof (cases "is_digit c")
    case True
    then obtain p' s' rest where
      "rmatch False qty_pattern (p, c # cs, []) = (p', s', [(1, number_prefix (c # cs))]) # rest"
      using qty_pattern_at_digit by blast
    with True show ?thesis by simp
  next
    case False
    then have "rmatch False qty_pattern (p, c # cs, []) = []"
      by (simp add: qty_pattern_no_digit)
    with False Cons.IH show ?thesis by simp
  qed
qed


lemma str_match_qty_pattern:
  "str_match s False qty_pattern = map_option (\<lambda>tok. [(1, tok)]) (first_number s)"
proof (cases "dropWhile (\<lambda>c. \<not> is_digit c) s")
  case Nil
  show ?thesis
    unfolding str_match_def rsearch_qty_pattern first_number_def Nil by simp
next
  case (Cons c cs)
  show ?thesis
    unfolding str_match_def rsearch_qty_pattern first_number_def Cons by simp
qed











subsection \<open>The estimates\<close>

lemma starts_with_iff: "starts_with s k \<longleftrightarrow> (\<exists>b. s = k @ b)"
  by (induction s k rule: starts_with.induct) auto

lemma str_includes_iff: "str_includes s k \<longleftrightarrow> (\<exists>a b. s = a @ k @ b)"
proof (induction s)
  case Nil
  show ?case by auto
next
  case (Cons c cs)
  show ?case
  proof
    assume "str_includes (c # cs) k"
    then consider "starts_with (c # cs) k" | "str_includes cs k" by auto
    then show "\<exists>a b. c # cs = a @ k @ b"
    proof cases
      case 1
      then obtain b where "c # cs = k @ b" using starts_with_iff by blast
      then have "c # cs = [] @ k @ b" by simp
      then show ?thesis by blast
    next
      case 2
      then obtain a b where "cs = a @ k @ b" using Cons.IH by blast
      then have "c # cs = (c # a) @ k @ b" by simp
      then show ?thesis by blast
    qed
  next
    assume "\<exists>a b. c # cs = a @ k @ b"
    then obtain a b where ab: "c # cs = a @ k @ b" by blast
    show "str_includes (c # cs) k"
    proof (cases a)
      case Nil
      with ab have "starts_with (c # cs) k" using starts_with_iff by auto
      then show ?thesis by simp
    next
      case (Cons a0 a')
      with ab have "cs = a' @ k @ b" by simp
      then have "str_includes cs k" using Cons.IH by blast
      then show ?thesis by simp
    qed
  qed
qed

lemma provenance_of_estimation:
  "provenance_of (''estimation ('' @ u @ '')'') = Some Local_table"
  by (simp add: provenance_of_def)

text \<open>
  C6. Let the description, lowercased and trimmed, contain the key of an entry of the
  reference table as a substring. Then \<^verbatim>\<open>estimateFood\<close> takes the first entry of the
  table, in its order, whose key the text contains; its source is
  \<^verbatim>\<open>estimation (\<close>unit of the entry\<^verbatim>\<open>)\<close>, which is the provenance the specification
  calls local-table; and its kcal is the kcal of that entry times the quantity, the
  quantity being the first numeric token of the text read as a number, and 1 when the
  text has no digit.
\<close>

theorem C6_table_hit_scaled_by_quantity:
  assumes "x \<in> set MINI_DB" and "trim (toLowerCase desc) = a @ e_key x @ b"
  shows "\<exists>hit i.
           i < length MINI_DB \<and> MINI_DB ! i = hit
         \<and> str_includes (trim (toLowerCase desc)) (e_key hit)
         \<and> (\<forall>j<i. \<not> str_includes (trim (toLowerCase desc)) (e_key (MINI_DB ! j)))
         \<and> food_estimate.source (estimateFood desc) = ''estimation ('' @ e_unit hit @ '')''
         \<and> provenance_of (food_estimate.source (estimateFood desc)) = Some Local_table
         \<and> food_estimate.kcal (estimateFood desc)
             = js_mul (e_kcal hit)
                 (case first_number (trim (toLowerCase desc)) of
                    None \<Rightarrow> Fin 1
                  | Some tok \<Rightarrow> parseFloat_str tok)"
proof -
  let ?d = "trim (toLowerCase desc)"
  have "str_includes ?d (e_key x)"
    using assms(2) str_includes_iff by blast
  with assms(1) have "find (\<lambda>x. str_includes ?d (e_key x)) MINI_DB \<noteq> None"
    by (auto simp: find_None_iff)
  then obtain hit where f: "find (\<lambda>x. str_includes ?d (e_key x)) MINI_DB = Some hit"
    by blast
  then obtain i where i: "i < length MINI_DB" "MINI_DB ! i = hit" "str_includes ?d (e_key hit)"
      "\<forall>j<i. \<not> str_includes ?d (e_key (MINI_DB ! j))"
    by (auto simp: find_Some_iff)
  have q: "(case str_match ?d False qty_pattern of
              None \<Rightarrow> Fin 1
            | Some qtyMatch \<Rightarrow> parseFloat_str (capture qtyMatch 1))
           = (case first_number ?d of None \<Rightarrow> Fin 1 | Some tok \<Rightarrow> parseFloat_str tok)"
    by (cases "first_number ?d") (simp_all add: str_match_qty_pattern capture_def)
  have s: "food_estimate.source (estimateFood desc) = ''estimation ('' @ e_unit hit @ '')''"
    using f by (simp add: estimateFood_def Let_def)
  have k: "food_estimate.kcal (estimateFood desc)
             = js_mul (e_kcal hit)
                 (case first_number ?d of None \<Rightarrow> Fin 1 | Some tok \<Rightarrow> parseFloat_str tok)"
    using f q by (simp add: estimateFood_def Let_def)
  have p: "provenance_of (food_estimate.source (estimateFood desc)) = Some Local_table"
    unfolding s by (rule provenance_of_estimation)
  from i s k p show ?thesis by blast
qed

text \<open>
  Witness for C6: \<^verbatim>\<open>" 2 Bananas"\<close> contains the key \<^verbatim>\<open>banana\<close> and its first number is
  2, so the estimate is twice the 105 kcal of the table; \<^verbatim>\<open>banana\<close> alone gives 105.
\<close>

theorem C6_table_hit_scaled_by_quantity_witness:
  "\<lparr>e_key = ''banana'', e_kcal = Fin 105, e_p = Fin 1.3, e_c = Fin 27, e_f = Fin 0.3,
     e_unit = ''per medium''\<rparr> \<in> set MINI_DB
   \<and> trim (toLowerCase '' 2 Bananas'') = ''2 '' @ ''banana'' @ ''s''
   \<and> first_number (trim (toLowerCase '' 2 Bananas'')) = Some ''2''
   \<and> provenance_of (food_estimate.source (estimateFood '' 2 Bananas'')) = Some Local_table
   \<and> food_estimate.source (estimateFood '' 2 Bananas'') = ''estimation (per medium)''
   \<and> food_estimate.kcal (estimateFood '' 2 Bananas'') = Fin 210
   \<and> food_estimate.kcal (estimateFood ''banana'') = Fin 105"
proof -
  let ?x = "\<lparr>e_key = ''banana'', e_kcal = Fin 105, e_p = Fin 1.3, e_c = Fin 27, e_f = Fin 0.3,
     e_unit = ''per medium''\<rparr>"
  have m: "?x \<in> set MINI_DB"
    by (simp add: MINI_DB_def)
  have d: "trim (toLowerCase '' 2 Bananas'') = ''2 '' @ e_key ?x @ ''s''"
    by code_simp
  have p: "provenance_of (food_estimate.source (estimateFood '' 2 Bananas'')) = Some Local_table"
    using C6_table_hit_scaled_by_quantity [OF m d] by blast
  have rest: "trim (toLowerCase '' 2 Bananas'') = ''2 '' @ ''banana'' @ ''s''
   \<and> first_number (trim (toLowerCase '' 2 Bananas'')) = Some ''2''
   \<and> food_estimate.source (estimateFood '' 2 Bananas'') = ''estimation (per medium)''
   \<and> food_estimate.kcal (estimateFood '' 2 Bananas'') = Fin 210
   \<and> food_estimate.kcal (estimateFood ''banana'') = Fin 105"
    by code_simp
  from m p rest show ?thesis by blast
qed



section \<open>Properties of the exact-match client\<close>

lemma get_prop_defined:
  "it \<noteq> JNull \<Longrightarrow> it \<noteq> JUndefined \<Longrightarrow> get_prop it k = Inr (js_prop it k)"
  by (cases it) simp_all

lemma sum_items_foldl:
  assumes "\<forall>it \<in> set items. it \<noteq> JNull \<and> it \<noteq> JUndefined"
  shows "sum_items items t =
           Inr \<lparr>totals.kcal = foldl (\<lambda>a it. js_add a (num (js_prop it ''calories''))) (totals.kcal t) items,
                protein_g = foldl (\<lambda>a it. js_add a (num (js_prop it ''protein_g''))) (totals.protein_g t) items,
                carbs_g = foldl (\<lambda>a it. js_add a (num (js_prop it ''carbohydrates_total_g''))) (totals.carbs_g t) items,
                fat_g = foldl (\<lambda>a it. js_add a (num (js_prop it ''fat_total_g''))) (totals.fat_g t) items\<rparr>"
  using assms
proof (induction items arbitrary: t)
  case Nil
  show ?case by simp
next
  case (Cons it items)
  then have ok: "it \<noteq> JNull" "it \<noteq> JUndefined" and rest: "\<forall>x \<in> set items. x \<noteq> JNull \<and> x \<noteq> JUndefined"
    by simp_all
  show ?case
    by (simp add: get_prop_defined [OF ok] Cons.IH [OF rest])
qed

lemma num_falsy: "\<not> truthy v \<Longrightarrow> num v = Fin 0"
  by (simp add: num_def)

lemma num_number: "num (JNum (Fin r)) = Fin r"
  by (simp add: num_def)

lemma num_string: "s \<noteq> [] \<Longrightarrow> num (JStr s) = StringToNumber s"
  by (simp add: num_def)

text \<open>
  C7, as the program has it. Over items none of which is \<^verbatim>\<open>null\<close>, the loop adds up,
  for each of the four nutrients, the field of every item read through \<^verbatim>\<open>num\<close>. \<^verbatim>\<open>num\<close>
  gives 0 for a field that is falsy (absent, \<^verbatim>\<open>null\<close>, \<^verbatim>\<open>false\<close>, 0, the empty string),
  the number itself for a number, and for a non-empty string what \<^verbatim>\<open>Number\<close> reads from
  it. The client returns \<^verbatim>\<open>null\<close> whenever the summed kcal is at most 0, and the sums
  when there are items and the summed kcal is not at most 0.
\<close>

theorem C7_exact_match_sums:
  "(\<forall>items. (\<forall>it \<in> set items. it \<noteq> JNull \<and> it \<noteq> JUndefined) \<longrightarrow>
       sum_items items zero_totals =
         Inr \<lparr>totals.kcal = field_sum ''calories'' items,
              protein_g = field_sum ''protein_g'' items,
              carbs_g = field_sum ''carbohydrates_total_g'' items,
              fat_g = field_sum ''fat_total_g'' items\<rparr>)
   \<and> (\<forall>v. \<not> truthy v \<longrightarrow> num v = Fin 0)
   \<and> \<not> truthy JUndefined \<and> \<not> truthy JNull \<and> \<not> truthy (JBool False)
   \<and> \<not> truthy (JNum (Fin 0)) \<and> \<not> truthy (JStr [])
   \<and> (\<forall>r. num (JNum (Fin r)) = Fin r)
   \<and> (\<forall>s. s \<noteq> [] \<longrightarrow> num (JStr s) = StringToNumber s)
   \<and> (\<forall>fetch query key items t.
         key \<noteq> [] \<and> fetch (ApiNinjasNutrition query key) = Response True (Some (JArr items))
           \<and> sum_items items zero_totals = Inr t \<and> js_le (totals.kcal t) (Fin 0) \<longrightarrow>
         fetchFromApiNinjas fetch query (Some key) = (Inr None, [ApiNinjasNutrition query key]))
   \<and> (\<forall>fetch query key items t.
         key \<noteq> [] \<and> fetch (ApiNinjasNutrition query key) = Response True (Some (JArr items))
           \<and> items \<noteq> [] \<and> sum_items items zero_totals = Inr t
           \<and> \<not> js_le (totals.kcal t) (Fin 0) \<longrightarrow>
         fetchFromApiNinjas fetch query (Some key) = (Inr (Some t), [ApiNinjasNutrition query key]))"
proof -
  have p1: "\<forall>items. (\<forall>it \<in> set items. it \<noteq> JNull \<and> it \<noteq> JUndefined) \<longrightarrow>
       sum_items items zero_totals =
         Inr \<lparr>totals.kcal = field_sum ''calories'' items,
              protein_g = field_sum ''protein_g'' items,
              carbs_g = field_sum ''carbohydrates_total_g'' items,
              fat_g = field_sum ''fat_total_g'' items\<rparr>"
    by (simp add: sum_items_foldl field_sum_def zero_totals_def)
  have p2: "\<forall>fetch query key items t.
         key \<noteq> [] \<and> fetch (ApiNinjasNutrition query key) = Response True (Some (JArr items))
           \<and> sum_items items zero_totals = Inr t \<and> js_le (totals.kcal t) (Fin 0) \<longrightarrow>
         fetchFromApiNinjas fetch query (Some key) = (Inr None, [ApiNinjasNutrition query key])"
    by (auto simp: fetchFromApiNinjas_def Let_def)
  have p3: "\<forall>fetch query key items t.
         key \<noteq> [] \<and> fetch (ApiNinjasNutrition query key) = Response True (Some (JArr items))
           \<and> items \<noteq> [] \<and> sum_items items zero_totals = Inr t
           \<and> \<not> js_le (totals.kcal t) (Fin 0) \<longrightarrow>
         fetchFromApiNinjas fetch query (Some key) = (Inr (Some t), [ApiNinjasNutrition query key])"
    by (simp add: fetchFromApiNinjas_def)
  from p1 p2 p3 show ?thesis
    by (simp add: num_falsy num_number num_string)
qed

text \<open>
  Witness for C7: items with the calories 100 and 50 and the protein 10 and 5 sum to
  150 kcal and 15 g of protein; a response with no item gives \<^verbatim>\<open>null\<close>.
\<close>

theorem C7_exact_match_sums_witness:
  "sum_items [JObj [(''calories'', JNum (Fin 100)), (''protein_g'', JNum (Fin 10))],
              JObj [(''calories'', JNum (Fin 50)), (''protein_g'', JNum (Fin 5))]] zero_totals
     = Inr \<lparr>totals.kcal = Fin 150, protein_g = Fin 15, carbs_g = Fin 0, fat_g = Fin 0\<rparr>
   \<and> fetchFromApiNinjas both_answer ''rice'' (Some ''k'')
     = (Inr (Some \<lparr>totals.kcal = Fin 150, protein_g = Fin 15, carbs_g = Fin 0, fat_g = Fin 0\<rparr>),
        [ApiNinjasNutrition ''rice'' ''k''])
   \<and> fetchFromApiNinjas nothing_found ''rice'' (Some ''k'')
     = (Inr None, [ApiNinjasNutrition ''rice'' ''k''])"
proof -
  let ?items = "[JObj [(''calories'', JNum (Fin 100)), (''protein_g'', JNum (Fin 10))],
              JObj [(''calories'', JNum (Fin 50)), (''protein_g'', JNum (Fin 5))]]"
  have f: "field_sum ''calories'' ?items = Fin 150" "field_sum ''protein_g'' ?items = Fin 15"
      "field_sum ''carbohydrates_total_g'' ?items = Fin 0" "field_sum ''fat_total_g'' ?items = Fin 0"
    by code_simp+
  have ok: "\<forall>it \<in> set ?items. it \<noteq> JNull \<and> it \<noteq> JUndefined" by simp
  have "sum_items ?items zero_totals =
         Inr \<lparr>totals.kcal = field_sum ''calories'' ?items,
              protein_g = field_sum ''protein_g'' ?items,
              carbs_g = field_sum ''carbohydrates_total_g'' ?items,
              fat_g = field_sum ''fat_total_g'' ?items\<rparr>"
    using conjunct1 [OF C7_exact_match_sums, THEN spec, of ?items] ok by blast
  then have s: "sum_items ?items zero_totals
     = Inr \<lparr>totals.kcal = Fin 150, protein_g = Fin 15, carbs_g = Fin 0, fat_g = Fin 0\<rparr>"
    by (simp only: f)
  have r: "both_answer (ApiNinjasNutrition ''rice'' ''k'') = Response True (Some (JArr ?items))"
    by (simp add: both_answer_def items_100_50_def)
  have k: "''k'' \<noteq> []" by simp
  have le: "\<not> js_le (totals.kcal \<lparr>totals.kcal = Fin 150, protein_g = Fin 15, carbs_g = Fin 0, fat_g = Fin 0\<rparr>) (Fin 0)"
    by simp
  have ne: "?items \<noteq> []" by simp
  have "fetchFromApiNinjas both_answer ''rice'' (Some ''k'')
     = (Inr (Some \<lparr>totals.kcal = Fin 150, protein_g = Fin 15, carbs_g = Fin 0, fat_g = Fin 0\<rparr>),
        [ApiNinjasNutrition ''rice'' ''k''])"
    using C7_exact_match_sums k r ne s le by blast
  moreover have "fetchFromApiNinjas nothing_found ''rice'' (Some ''k'')
     = (Inr None, [ApiNinjasNutrition ''rice'' ''k''])"
    by code_simp
  ultimately show ?thesis using s by simp
qed

text \<open>
  Counterexample to C7 as stated: a field that is not numeric is not counted as 0. The
  exact-match service answers with the text
  \<^verbatim>\<open>Only available for premium subscribers.\<close> in \<^verbatim>\<open>protein_g\<close>; \<^verbatim>\<open>Number\<close> makes it
  \<^verbatim>\<open>NaN\<close>, the protein sum is \<^verbatim>\<open>NaN\<close>, and the handler answers with it. A field
  \<^verbatim>\<open>true\<close> would count as 1.
\<close>

theorem C7_non_numeric_field_is_not_zero:
  "fetchFromApiNinjas (\<lambda>call. Response True (Some premium_items)) ''rice'' (Some ''k'')
     = (Inr (Some \<lparr>totals.kcal = Fin 100, protein_g = NaN, carbs_g = Fin 0, fat_g = Fin 0\<rparr>),
        [ApiNinjasNutrition ''rice'' ''k''])
   \<and> num (JStr ''Only available for premium subscribers.'') = NaN
   \<and> num (JBool True) = Fin 1
   \<and> handler (\<lambda>call. Response True (Some premium_items)) (Some ''k'') (Req (Some ''rice'') None)
     = (Http 200 (Estimate \<lparr>totals.kcal = Fin 100, protein_g = NaN, carbs_g = Fin 0,
                             fat_g = Fin 0, source = ''api_ninjas''\<rparr>),
        [ApiNinjasNutrition ''rice'' ''k''])"
  by code_simp

section \<open>Properties of the community-database client\<close>

lemma js_prop_object:
  "js_prop v k = JNum x \<Longrightarrow> \<exists>kvs. v = JObj kvs"
  by (cases v) simp_all


lemma query_200g:
  "str_match ''200g chicken'' True query_grams_pattern = Some [(2, ''g''), (1, ''200'')]"
  by code_simp

lemma parse_200: "parseFloat_str (capture [(2, ''g''), (1, ''200'')] 1) = Fin 200"
  by code_simp

lemma scale_200g_chicken:
  assumes "js_prop (js_prop product ''nutriments'') ''energy-kcal_100g'' = JNum (Fin 165)"
  shows "\<exists>t. scale_product ''200g chicken'' product = Inr (Some t) \<and> totals.kcal t = Fin 330"
proof -
  obtain kvs where n: "js_prop product ''nutriments'' = JObj kvs"
    using js_prop_object [OF assms] by blast
  have e: "js_prop (JObj kvs) ''energy-kcal_100g'' = JNum (Fin 165)"
    using assms n by simp
  have k: "kcalPer100 (JObj kvs) = Fin 165"
    unfolding kcalPer100_def e by (simp add: num_def)
  have p: "portionFromQueryOrProduct ''200g chicken'' product = Inr (Some (Fin 200))"
    by (simp add: portionFromQueryOrProduct_def query_200g parse_200 del: One_nat_def)
  have nn: "js_or (js_prop product ''nutriments'') (JObj []) = JObj kvs"
    by (simp add: n js_or_def)
  have r: "\<lfloor>(661::rat) / 2\<rfloor> = 330"
    by code_simp
  have g: "num_or (Fin 200) (Fin 100) = Fin 200"
    by (simp add: num_or_def)
  show ?thesis
    unfolding scale_product_def Let_def nn k p by (simp add: g r)
qed

lemma pick_single:
  assumes "js_prop (js_prop product ''nutriments'') ''energy-kcal_100g'' = JNum (Fin 165)"
  shows "pick_product [product] = product \<and> truthy product \<and> truthy (hasNutriments product)"
proof -
  obtain kvs where n: "js_prop product ''nutriments'' = JObj kvs"
    using js_prop_object [OF assms] by blast
  then obtain pvs where pr: "product = JObj pvs"
    by (cases product) simp_all
  have e: "js_prop (JObj kvs) ''energy-kcal_100g'' = JNum (Fin 165)"
    using assms n by simp
  have nn: "js_or (js_prop product ''nutriments'') (JObj []) = JObj kvs"
    by (simp add: n js_or_def)
  have h: "truthy (hasNutriments product)"
    unfolding hasNutriments_def Let_def nn e by (simp add: js_or_def)
  have t: "truthy product" using pr by simp
  show ?thesis using h t by (simp add: pick_product_def js_or_def)
qed


lemma grams_pattern_empty: "str_match [] True grams_pattern = None"
  by code_simp

subsection \<open>The multipack pattern\<close>

lemma positions_refl: "(p, s) \<in> set (positions p s)"
  by (cases s) simp_all

lemma positions_trans:
  "(p', s') \<in> set (positions p s) \<Longrightarrow> set (positions p' s') \<subseteq> set (positions p s)"
proof (induction s arbitrary: p)
  case Nil
  then show ?case by simp
next
  case (Cons c cs)
  then show ?case by auto
qed

lemma rsearch_None_iff:
  "rsearch i r p s = None \<longleftrightarrow> (\<forall>x \<in> set (positions p s). rmatch i r (fst x, snd x, []) = [])"
  by (induction s arbitrary: p) (auto split: list.splits)

lemma rmatch_positions:
  "st' \<in> set (rmatch i r st) \<Longrightarrow> pos st' \<in> set (positions (fst st) (fst (snd st)))"
proof (induction i r st arbitrary: st' rule: rmatch.induct)
  case (1 i st)
  then show ?case by (simp add: pos_def positions_refl)
next
  case (2 i p s g)
  then show ?case by (auto simp: pos_def positions_refl split: list.splits if_splits)
next
  case (3 i p s g)
  then show ?case by (auto simp: pos_def positions_refl split: list.splits if_splits)
next
  case (4 i a p s g)
  then show ?case by (auto simp: pos_def positions_refl split: list.splits if_splits)
next
  case (5 i a b st)
  from "5.prems" obtain mid where m: "mid \<in> set (rmatch i a st)" and s: "st' \<in> set (rmatch i b mid)"
    by auto
  have "pos mid \<in> set (positions (fst st) (fst (snd st)))"
    using "5.IH"(1) m by blast
  moreover have "pos st' \<in> set (positions (fst mid) (fst (snd mid)))"
    using "5.IH"(2) m s by blast
  ultimately show ?case
    using positions_trans [of "fst mid" "fst (snd mid)" "fst st" "fst (snd st)"]
    by (auto simp: pos_def)
next
  case (6 i a b st)
  from "6.prems" have "st' \<in> set (rmatch i a st) \<or> st' \<in> set (rmatch i b st)"
    by simp
  then show ?case using "6.IH" by blast
next
  case (7 i a st)
  from "7.prems" have "st' \<in> set (concat (map (\<lambda>x. if length (fst (snd x)) < length (fst (snd st))
                         then rmatch i (Star a) x else []) (rmatch i a st)) @ [st])"
    by (subst (asm) rmatch.simps(7))
  then consider "st' = st"
    | mid where "mid \<in> set (rmatch i a st)" "length (fst (snd mid)) < length (fst (snd st))"
        "st' \<in> set (rmatch i (Star a) mid)"
    by (auto simp del: rmatch.simps split: if_splits)
  then show ?case
  proof cases
    case 1
    then show ?thesis by (simp add: pos_def positions_refl)
  next
    case 2
    have "pos mid \<in> set (positions (fst st) (fst (snd st)))"
      using "7.IH"(1) 2(1) by blast
    moreover have "pos st' \<in> set (positions (fst mid) (fst (snd mid)))"
      using "7.IH"(2) 2 by blast
    ultimately show ?thesis
      using positions_trans [of "fst mid" "fst (snd mid)" "fst st" "fst (snd st)"]
      by (auto simp: pos_def)
  qed
next
  case (8 i n a p s g)
  then show ?case by (auto simp: pos_def)
next
  case (9 i p s g)
  then show ?case by (auto simp: pos_def positions_refl split: if_splits)
qed

lemma concat_map_pos:
  assumes "map pos xs = map pos ys"
      and "\<And>x g'. x \<in> set xs \<Longrightarrow> F x = G (fst x, fst (snd x), g')"
    shows "concat (map F xs) = concat (map G ys)"
  using assms
proof (induction xs arbitrary: ys)
  case Nil
  then show ?case by simp
next
  case (Cons x xs)
  from Cons.prems(1) obtain y ys' where ys: "ys = y # ys'" and py: "pos x = pos y"
    and rest: "map pos xs = map pos ys'"
    by (cases ys) auto
  obtain p s g where y: "y = (p, s, g)" by (cases y) auto
  with py have "F x = G y"
    using Cons.prems(2) [of x g] by (simp add: pos_def)
  moreover have "concat (map F xs) = concat (map G ys')"
    using Cons.IH [OF rest] Cons.prems(2) by simp
  ultimately show ?case by (simp add: ys)
qed

lemma captures_irrelevant:
  "map pos (rmatch i r st) = map pos (rmatch i r (fst st, fst (snd st), g'))"
proof (induction i r st arbitrary: g' rule: rmatch.induct)
  case (1 i st)
  then show ?case by (simp add: pos_def)
next
  case (2 i p s g)
  then show ?case by (simp add: pos_def split: list.splits)
next
  case (3 i p s g)
  then show ?case by (simp add: pos_def split: list.splits)
next
  case (4 i a p s g)
  then show ?case by (simp add: pos_def split: list.splits)
next
  case (5 i a b st)
  have "concat (map (\<lambda>x. map pos (rmatch i b x)) (rmatch i a st))
      = concat (map (\<lambda>x. map pos (rmatch i b x)) (rmatch i a (fst st, fst (snd st), g')))"
  proof (rule concat_map_pos)
    show "map pos (rmatch i a st) = map pos (rmatch i a (fst st, fst (snd st), g'))"
      using "5.IH"(1) .
    show "map pos (rmatch i b x) = map pos (rmatch i b (fst x, fst (snd x), g''))"
      if "x \<in> set (rmatch i a st)" for x g''
      using "5.IH"(2) [OF that] .
  qed
  then show ?case by (simp add: map_concat comp_def)
next
  case (6 i a b st)
  then show ?case by simp
next
  case (7 i a st)
  let ?F = "\<lambda>n x. if length (fst (snd x)) < n then map pos (rmatch i (Star a) x) else []"
  have "concat (map (?F (length (fst (snd st)))) (rmatch i a st))
      = concat (map (?F (length (fst (snd st)))) (rmatch i a (fst st, fst (snd st), g')))"
  proof (rule concat_map_pos)
    show "map pos (rmatch i a st) = map pos (rmatch i a (fst st, fst (snd st), g'))"
      using "7.IH"(1) .
    show "?F (length (fst (snd st))) x = ?F (length (fst (snd st))) (fst x, fst (snd x), g'')"
      if "x \<in> set (rmatch i a st)" for x g''
      using "7.IH"(2) [OF that] by simp
  qed
  moreover have m: "map pos (concat (map (\<lambda>x. if length (fst (snd x)) < n then rmatch i (Star a) x else []) xs))
      = concat (map (?F n) xs)" for n xs
    by (induction xs) simp_all
  moreover have "pos (fst st, fst (snd st), g') = pos st"
    by (simp add: pos_def)
  ultimately show ?case
    by (subst rmatch.simps(7), subst (2) rmatch.simps(7)) (simp add: m del: rmatch.simps)
next
  case (8 i n a p s g)
  have "pos \<circ> (\<lambda>(p', s', g'). (p', s', (n, take (length s - length s') s) # g')) = pos"
    by (auto simp: pos_def fun_eq_iff)
  then show ?case using "8.IH" [of g'] by simp
next
  case (9 i p s g)
  then show ?case by (simp add: pos_def)
qed


lemma rmatch_empty_captures:
  "rmatch i r (p, s, g) = [] \<longleftrightarrow> rmatch i r (p, s, []) = []"
  using captures_irrelevant [of i r "(p, s, g)" "[]"]
  by (metis fst_conv snd_conv map_is_Nil_conv)

lemma seq_nonempty:
  "rmatch i (Seq a b) st \<noteq> [] \<longleftrightarrow> (\<exists>mid \<in> set (rmatch i a st). rmatch i b mid \<noteq> [])"
  by auto

lemma group_empty:
  "rmatch i (Group n a) (p, s, g) = [] \<longleftrightarrow> rmatch i a (p, s, g) = []"
  by simp

text \<open>Neither the number of a group nor the captures so far decide whether a sequence matches.\<close>

lemma group_in_seq_empty:
  "rmatch i (Seq (Group n d) T) (p, s, g) = [] \<longleftrightarrow> rmatch i (Seq d T) (p, s, []) = []"
proof -
  have grp: "rmatch i (Group n d) (p, s, g)
      = map (\<lambda>(p', s', g'). (p', s', (n, take (length s - length s') s) # g')) (rmatch i d (p, s, g))"
    by simp
  have "rmatch i (Seq (Group n d) T) (p, s, g) \<noteq> []
        \<longleftrightarrow> (\<exists>mid \<in> set (rmatch i (Group n d) (p, s, g)). rmatch i T mid \<noteq> [])"
    by (rule seq_nonempty)
  also have "\<dots> \<longleftrightarrow> (\<exists>mid \<in> set (rmatch i d (p, s, g)). rmatch i T mid \<noteq> [])"
  proof
    assume "\<exists>mid \<in> set (rmatch i (Group n d) (p, s, g)). rmatch i T mid \<noteq> []"
    then obtain p' s' g' where "(p', s', g') \<in> set (rmatch i d (p, s, g))"
      and "rmatch i T (p', s', (n, take (length s - length s') s) # g') \<noteq> []"
      unfolding grp by auto
    then show "\<exists>mid \<in> set (rmatch i d (p, s, g)). rmatch i T mid \<noteq> []"
      using rmatch_empty_captures [of i T p' s'] by blast
  next
    assume "\<exists>mid \<in> set (rmatch i d (p, s, g)). rmatch i T mid \<noteq> []"
    then obtain p' s' g' where m: "(p', s', g') \<in> set (rmatch i d (p, s, g))"
      and "rmatch i T (p', s', g') \<noteq> []"
      by (metis prod_cases3)
    then have t: "rmatch i T (p', s', (n, take (length s - length s') s) # g') \<noteq> []"
      using rmatch_empty_captures [of i T p' s'] by blast
    have "(p', s', (n, take (length s - length s') s) # g') \<in> set (rmatch i (Group n d) (p, s, g))"
      unfolding grp using m by force
    with t show "\<exists>mid \<in> set (rmatch i (Group n d) (p, s, g)). rmatch i T mid \<noteq> []"
      by blast
  qed
  also have "\<dots> \<longleftrightarrow> rmatch i (Seq d T) (p, s, g) \<noteq> []"
    by (rule seq_nonempty [symmetric])
  also have "\<dots> \<longleftrightarrow> rmatch i (Seq d T) (p, s, []) \<noteq> []"
    using rmatch_empty_captures [of i "Seq d T" p s g] by blast
  finally show ?thesis by blast
qed

lemma multipack_implies_grams_at:
  assumes "rmatch True multipack_pattern st \<noteq> []"
  shows "\<exists>x \<in> set (positions (fst st) (fst (snd st))).
            rmatch True grams_pattern (fst x, snd x, []) \<noteq> []"
proof -
  let ?A = "Group 1 (Plus Digit)"
  let ?S = "Star Space"
  let ?X = "Chr CHR ''x''"
  let ?T = "Seq (Group 2 decimal_pattern) (Seq (Star Space) (Chr CHR ''g''))"
  have mp: "multipack_pattern = Seq ?A (Seq ?S (Seq ?X (Seq ?S ?T)))"
    by (simp add: multipack_pattern_def)
  from assms obtain s1 where s1: "s1 \<in> set (rmatch True ?A st)"
    and r1: "rmatch True (Seq ?S (Seq ?X (Seq ?S ?T))) s1 \<noteq> []"
    unfolding mp seq_nonempty by blast
  from r1 obtain s2 where s2: "s2 \<in> set (rmatch True ?S s1)"
    and r2: "rmatch True (Seq ?X (Seq ?S ?T)) s2 \<noteq> []"
    unfolding seq_nonempty by blast
  from r2 obtain s3 where s3: "s3 \<in> set (rmatch True ?X s2)"
    and r3: "rmatch True (Seq ?S ?T) s3 \<noteq> []"
    unfolding seq_nonempty by blast
  from r3 obtain s4 where s4: "s4 \<in> set (rmatch True ?S s3)"
    and r4: "rmatch True ?T s4 \<noteq> []"
    unfolding seq_nonempty by blast
  have "pos s1 \<in> set (positions (fst st) (fst (snd st)))"
    using rmatch_positions [OF s1] .
  moreover have "pos s2 \<in> set (positions (fst s1) (fst (snd s1)))"
    using rmatch_positions [OF s2] .
  moreover have "pos s3 \<in> set (positions (fst s2) (fst (snd s2)))"
    using rmatch_positions [OF s3] .
  moreover have "pos s4 \<in> set (positions (fst s3) (fst (snd s3)))"
    using rmatch_positions [OF s4] .
  ultimately have p4: "pos s4 \<in> set (positions (fst st) (fst (snd st)))"
    using positions_trans unfolding pos_def by blast
  obtain p s g where e: "s4 = (p, s, g)" by (cases s4) auto
  have g4: "rmatch True grams_pattern (p, s, []) \<noteq> []"
    using r4 group_in_seq_empty [of True 2 decimal_pattern _ p s g]
      group_in_seq_empty [of True 1 decimal_pattern _ p s "[]"]
    unfolding e grams_pattern_def by blast
  have m4: "(p, s) \<in> set (positions (fst st) (fst (snd st)))"
    using p4 unfolding e pos_def by simp
  show ?thesis
    by (rule bexI [OF _ m4]) (simp add: g4 del: rmatch.simps)
qed

text \<open>
  Wherever the multipack pattern matches, the plain gram pattern matches as well, at
  the place where the second number of the multipack begins. So a \<^verbatim>\<open>quantity\<close> that the
  gram pattern does not match is not matched by the multipack pattern either: the
  multipack branch of \<^verbatim>\<open>portionFromQueryOrProduct\<close> never returns.
\<close>

lemma multipack_pattern_is_never_tried:
  assumes "str_match quantity True grams_pattern = None"
  shows "str_match quantity True multipack_pattern = None"
proof (rule ccontr)
  assume "str_match quantity True multipack_pattern \<noteq> None"
  then obtain x where x: "x \<in> set (positions None quantity)"
    and m: "rmatch True multipack_pattern (fst x, snd x, []) \<noteq> []"
    unfolding str_match_def rsearch_None_iff by blast
  from multipack_implies_grams_at [OF m]
  obtain y where y: "y \<in> set (positions (fst x) (snd x))"
    and g: "rmatch True grams_pattern (fst y, snd y, []) \<noteq> []"
    by auto
  have "y \<in> set (positions None quantity)"
    using positions_trans [of "fst x" "snd x" None quantity] x y by auto
  with g have "str_match quantity True grams_pattern \<noteq> None"
    unfolding str_match_def rsearch_None_iff by blast
  with assms show False by simp
qed

text \<open>
  C4. A candidate whose \<^verbatim>\<open>quantity\<close> is \<^verbatim>\<open>3 x 60 g\<close>, with no gram pattern in the query,
  none in \<^verbatim>\<open>serving_size\<close> and no positive \<^verbatim>\<open>product_quantity\<close>, should give a portion
  of 3 \<times> 60 = 180 grams. The program gives 60: it tries the plain gram pattern on
  \<^verbatim>\<open>quantity\<close> first, and that pattern already matches the \<^verbatim>\<open>60 g\<close> inside
  \<^verbatim>\<open>3 x 60 g\<close>, so the multipack pattern, which would give 3 and 60, is not tried.
\<close>

theorem C4_multipack_quantity_gives_60:
  assumes "str_match query True query_grams_pattern = None"
      and "serving_size_match product = None"
      and "\<not> package_quantity_positive product"
      and "js_prop product ''quantity'' = JStr ''3 x 60 g''"
    shows "portionFromQueryOrProduct query product = Inr (Some (Fin 60))"
proof -
  have m: "str_match ''3 x 60 g'' True grams_pattern = Some [(1, ''60'')]"
    by code_simp
  have v: "parseFloat_str (capture [(1, ''60'')] 1) = Fin 60"
    by code_simp
  show ?thesis
    using assms by (auto simp add: portionFromQueryOrProduct_def m v simp del: One_nat_def)
qed

theorem C4_multipack_quantity_gives_60_witness:
  "str_match ''samosa'' True query_grams_pattern = None
   \<and> js_prop (JObj [(''quantity'', JStr ''3 x 60 g'')]) ''serving_size'' = JUndefined
   \<and> js_prop (JObj [(''quantity'', JStr ''3 x 60 g'')]) ''product_quantity'' = JUndefined
   \<and> str_match ''3 x 60 g'' True multipack_pattern = Some [(2, ''60''), (1, ''3'')]
   \<and> js_mul (parseInt10 ''3'') (parseFloat_str ''60'') = Fin 180
   \<and> portionFromQueryOrProduct ''samosa'' (JObj [(''quantity'', JStr ''3 x 60 g'')])
       = Inr (Some (Fin 60))"
proof -
  have q: "str_match ''samosa'' True query_grams_pattern = None"
    by code_simp
  have mp: "str_match ''3 x 60 g'' True multipack_pattern = Some [(2, ''60''), (1, ''3'')]"
    by code_simp
  have prod: "js_mul (parseInt10 ''3'') (parseFloat_str ''60'') = Fin 180"
    by code_simp
  have "portionFromQueryOrProduct ''samosa'' (JObj [(''quantity'', JStr ''3 x 60 g'')])
          = Inr (Some (Fin 60))"
    by (rule C4_multipack_quantity_gives_60) (simp_all add: q)
  then show ?thesis
    using q mp prod by simp
qed

text \<open>
  C5. \<^verbatim>\<open>portionFromQueryOrProduct\<close> tries its sources in a fixed order and the first one
  that gives a value decides:
  \<^enum> a gram quantity in the query, whatever the product says;
  \<^enum> else a gram quantity in a \<^verbatim>\<open>serving_size\<close> that is a string;
  \<^enum> else a \<^verbatim>\<open>product_quantity\<close> that parses to a positive number;
  \<^enum> else a gram quantity in the string \<^verbatim>\<open>quantity\<close>;
  \<^enum> else nothing, for which the caller takes 100 grams (a \<^verbatim>\<open>quantity\<close> that is truthy
    and not a string has no \<^verbatim>\<open>match\<close>, and the function throws).
  So for the query \<^verbatim>\<open>200g chicken\<close> and any product whose \<^verbatim>\<open>energy-kcal_100g\<close> is 165,
  whatever its \<^verbatim>\<open>serving_size\<close> and other fields, the portion is 200 grams and the
  result has 330 kcal, also when the product comes alone in the search result of the
  client.
\<close>

theorem C5_portion_priority:
  "(\<forall>m. str_match query True query_grams_pattern = Some m \<longrightarrow>
        portionFromQueryOrProduct query product = Inr (Some (parseFloat_str (capture m 1))))
   \<and> (\<forall>mg. str_match query True query_grams_pattern = None
            \<and> serving_size_match product = Some mg \<longrightarrow>
        portionFromQueryOrProduct query product = Inr (Some (parseFloat_str (capture mg 1))))
   \<and> (str_match query True query_grams_pattern = None
        \<and> serving_size_match product = None
        \<and> package_quantity_positive product \<longrightarrow>
        portionFromQueryOrProduct query product
          = Inr (Some (parseFloat (js_prop product ''product_quantity''))))
   \<and> (\<forall>quantity q1. str_match query True query_grams_pattern = None
        \<and> serving_size_match product = None
        \<and> \<not> package_quantity_positive product
        \<and> js_prop product ''quantity'' = JStr quantity
        \<and> str_match quantity True grams_pattern = Some q1 \<longrightarrow>
        portionFromQueryOrProduct query product = Inr (Some (parseFloat_str (capture q1 1))))
   \<and> (str_match query True query_grams_pattern = None
        \<and> serving_size_match product = None
        \<and> \<not> package_quantity_positive product
        \<and> \<not> truthy (js_prop product ''quantity'') \<longrightarrow>
        portionFromQueryOrProduct query product = Inr None)
   \<and> (\<forall>quantity. str_match query True query_grams_pattern = None
        \<and> serving_size_match product = None
        \<and> \<not> package_quantity_positive product
        \<and> js_prop product ''quantity'' = JStr quantity
        \<and> str_match quantity True grams_pattern = None \<longrightarrow>
        portionFromQueryOrProduct query product = Inr None)
   \<and> (str_match query True query_grams_pattern = None
        \<and> serving_size_match product = None
        \<and> \<not> package_quantity_positive product
        \<and> truthy (js_prop product ''quantity'')
        \<and> (\<forall>quantity. js_prop product ''quantity'' \<noteq> JStr quantity) \<longrightarrow>
        portionFromQueryOrProduct query product = Inl TypeError)
   \<and> (\<forall>t. scale_product query product = Inr (Some t)
            \<and> portionFromQueryOrProduct query product = Inr None \<longrightarrow>
        totals.kcal t
          = Math_round (js_mul (kcalPer100 (js_or (js_prop product ''nutriments'') (JObj [])))
                               (js_div (Fin 100) (Fin 100))))
   \<and> (js_prop (js_prop product ''nutriments'') ''energy-kcal_100g'' = JNum (Fin 165) \<longrightarrow>
        portionFromQueryOrProduct ''200g chicken'' product = Inr (Some (Fin 200))
        \<and> (\<exists>t. scale_product ''200g chicken'' product = Inr (Some t) \<and> totals.kcal t = Fin 330)
        \<and> (\<forall>fetch. fetch (OpenFoodFactsSearch ''200g chicken'')
                       = Response True (Some (products_body [product])) \<longrightarrow>
              (\<exists>t. fetchFromOpenFoodFacts fetch ''200g chicken''
                      = (Inr (Some t), [OpenFoodFactsSearch ''200g chicken''])
                    \<and> totals.kcal t = Fin 330)))"
proof -
  have p1: "\<forall>m. str_match query True query_grams_pattern = Some m \<longrightarrow>
        portionFromQueryOrProduct query product = Inr (Some (parseFloat_str (capture m 1)))"
    by (simp add: portionFromQueryOrProduct_def)
  have p2: "\<forall>mg. str_match query True query_grams_pattern = None
            \<and> serving_size_match product = Some mg \<longrightarrow>
        portionFromQueryOrProduct query product = Inr (Some (parseFloat_str (capture mg 1)))"
    by (simp add: portionFromQueryOrProduct_def)
  have p3: "str_match query True query_grams_pattern = None
        \<and> serving_size_match product = None
        \<and> package_quantity_positive product \<longrightarrow>
        portionFromQueryOrProduct query product
          = Inr (Some (parseFloat (js_prop product ''product_quantity'')))"
    by (simp add: portionFromQueryOrProduct_def)
  have p4: "\<forall>quantity q1. str_match query True query_grams_pattern = None
        \<and> serving_size_match product = None
        \<and> \<not> package_quantity_positive product
        \<and> js_prop product ''quantity'' = JStr quantity
        \<and> str_match quantity True grams_pattern = Some q1 \<longrightarrow>
        portionFromQueryOrProduct query product = Inr (Some (parseFloat_str (capture q1 1)))"
    by (auto simp: portionFromQueryOrProduct_def grams_pattern_empty)
  have p5: "str_match query True query_grams_pattern = None
        \<and> serving_size_match product = None
        \<and> \<not> package_quantity_positive product
        \<and> \<not> truthy (js_prop product ''quantity'') \<longrightarrow>
        portionFromQueryOrProduct query product = Inr None"
    by (auto simp: portionFromQueryOrProduct_def)
  have p5b: "\<forall>quantity. str_match query True query_grams_pattern = None
        \<and> serving_size_match product = None
        \<and> \<not> package_quantity_positive product
        \<and> js_prop product ''quantity'' = JStr quantity
        \<and> str_match quantity True grams_pattern = None \<longrightarrow>
        portionFromQueryOrProduct query product = Inr None"
    by (auto simp: portionFromQueryOrProduct_def multipack_pattern_is_never_tried)
  have p5c: "str_match query True query_grams_pattern = None
        \<and> serving_size_match product = None
        \<and> \<not> package_quantity_positive product
        \<and> truthy (js_prop product ''quantity'')
        \<and> (\<forall>quantity. js_prop product ''quantity'' \<noteq> JStr quantity) \<longrightarrow>
        portionFromQueryOrProduct query product = Inl TypeError"
    by (cases "js_prop product ''quantity''") (auto simp: portionFromQueryOrProduct_def)
  have p6: "\<forall>t. scale_product query product = Inr (Some t)
            \<and> portionFromQueryOrProduct query product = Inr None \<longrightarrow>
        totals.kcal t
          = Math_round (js_mul (kcalPer100 (js_or (js_prop product ''nutriments'') (JObj [])))
                               (js_div (Fin 100) (Fin 100)))"
    by (auto simp: scale_product_def Let_def split: if_splits)
  have p7: "js_prop (js_prop product ''nutriments'') ''energy-kcal_100g'' = JNum (Fin 165) \<longrightarrow>
        portionFromQueryOrProduct ''200g chicken'' product = Inr (Some (Fin 200))
        \<and> (\<exists>t. scale_product ''200g chicken'' product = Inr (Some t) \<and> totals.kcal t = Fin 330)
        \<and> (\<forall>fetch. fetch (OpenFoodFactsSearch ''200g chicken'')
                       = Response True (Some (products_body [product])) \<longrightarrow>
              (\<exists>t. fetchFromOpenFoodFacts fetch ''200g chicken''
                      = (Inr (Some t), [OpenFoodFactsSearch ''200g chicken''])
                    \<and> totals.kcal t = Fin 330))"
  proof (intro impI conjI allI)
    assume a: "js_prop (js_prop product ''nutriments'') ''energy-kcal_100g'' = JNum (Fin 165)"
    show "portionFromQueryOrProduct ''200g chicken'' product = Inr (Some (Fin 200))"
      by (simp add: portionFromQueryOrProduct_def query_200g parse_200 del: One_nat_def)
    show s: "\<exists>t. scale_product ''200g chicken'' product = Inr (Some t) \<and> totals.kcal t = Fin 330"
      using a by (rule scale_200g_chicken)
    fix fetch
    assume f: "fetch (OpenFoodFactsSearch ''200g chicken'')
                       = Response True (Some (products_body [product]))"
    have "fetchFromOpenFoodFacts fetch ''200g chicken''
            = (scale_product ''200g chicken'' product, [OpenFoodFactsSearch ''200g chicken''])"
      using f pick_single [OF a]
      by (simp add: fetchFromOpenFoodFacts_def Let_def products_body_def)
    with s show "\<exists>t. fetchFromOpenFoodFacts fetch ''200g chicken''
                      = (Inr (Some t), [OpenFoodFactsSearch ''200g chicken''])
                    \<and> totals.kcal t = Fin 330"
      by auto
  qed
  from p1 p2 p3 p4 p5 p5b p5c p6 p7 show ?thesis by blast
qed

text \<open>
  Witness for C5: the product of the examples, with the serving size \<^verbatim>\<open>85 g\<close>. The query
  \<^verbatim>\<open>200g chicken\<close> decides over it; the query \<^verbatim>\<open>chicken\<close> leaves the decision to it.
\<close>

theorem C5_portion_priority_witness:
  "str_match ''200g chicken'' True query_grams_pattern = Some [(2, ''g''), (1, ''200'')]
   \<and> js_prop chicken_product ''serving_size'' = JStr ''85 g''
   \<and> js_prop (js_prop chicken_product ''nutriments'') ''energy-kcal_100g'' = JNum (Fin 165)
   \<and> portionFromQueryOrProduct ''200g chicken'' chicken_product = Inr (Some (Fin 200))
   \<and> fetchFromOpenFoodFacts both_answer ''200g chicken''
       = (Inr (Some \<lparr>totals.kcal = Fin 330, protein_g = Fin 0, carbs_g = Fin 0, fat_g = Fin 0\<rparr>),
          [OpenFoodFactsSearch ''200g chicken''])
   \<and> str_match ''chicken'' True query_grams_pattern = None
   \<and> portionFromQueryOrProduct ''chicken'' chicken_product = Inr (Some (Fin 85))"
proof -
  have e: "js_prop (js_prop chicken_product ''nutriments'') ''energy-kcal_100g'' = JNum (Fin 165)"
    by (simp add: chicken_product_def)
  have p: "portionFromQueryOrProduct ''200g chicken'' chicken_product = Inr (Some (Fin 200))"
    using C5_portion_priority [of "''200g chicken''" chicken_product] e by blast
  have rest: "str_match ''200g chicken'' True query_grams_pattern = Some [(2, ''g''), (1, ''200'')]
   \<and> js_prop chicken_product ''serving_size'' = JStr ''85 g''
   \<and> fetchFromOpenFoodFacts both_answer ''200g chicken''
       = (Inr (Some \<lparr>totals.kcal = Fin 330, protein_g = Fin 0, carbs_g = Fin 0, fat_g = Fin 0\<rparr>),
          [OpenFoodFactsSearch ''200g chicken''])
   \<and> str_match ''chicken'' True query_grams_pattern = None
   \<and> portionFromQueryOrProduct ''chicken'' chicken_product = Inr (Some (Fin 85))"
    by code_simp
  from e p rest show ?thesis by blast
qed



section \<open>Properties of the handler\<close>

lemma fetchFromApiNinjas_calls:
  "OpenFoodFactsSearch s \<notin> set (snd (fetchFromApiNinjas fetch q key))"
  by (auto simp: fetchFromApiNinjas_def Let_def
           split: option.splits fetch_result.splits jsval.splits sum.splits)

lemma tagged_fields:
  "tagged t tag = \<lparr>totals.kcal = totals.kcal t, protein_g = totals.protein_g t,
                    carbs_g = totals.carbs_g t, fat_g = totals.fat_g t, source = tag\<rparr>"
  by (cases t) (simp add: tagged_def totals.defs)

lemma not_usable_None: "\<not> usable None"
  by (simp add: usable_def)

text \<open>
  C1, as the program has it. Let \<open>q\<close> be the query of the request, trimmed. When \<open>q\<close>
  is empty the answer is 400 and no provider is called. Otherwise:
  \<^item> when the exact-match client returns a result with \<^verbatim>\<open>kcal > 0\<close>, the answer is that
    result with the source \<^verbatim>\<open>api_ninjas\<close> (the exact-match provenance), and no request
    to the community database has been issued;
  \<^item> when the exact-match client returns without such a result and the
    community-database client returns a result with \<^verbatim>\<open>kcal > 0\<close>, the answer is that
    result with the source \<^verbatim>\<open>open_food_facts\<close> (the community-database provenance);
  \<^item> when both clients return without such a result, the answer is exactly the zero
    estimate with the source \<^verbatim>\<open>none\<close>;
  \<^item> when a client throws, the answer is 500 with what was thrown, and after a throw
    of the exact-match client the community database is not asked.
\<close>

theorem C1_orchestrator_order:
  assumes "q = trim (param_or q_param (param_or query_param []))"
  shows "(q = [] \<longrightarrow>
            handler fetch key (Req q_param query_param)
              = (Http 400 (ErrorMessage ''Missing ?q=''), []))
       \<and> (q \<noteq> [] \<longrightarrow>
            (\<forall>t calls.
               fetchFromApiNinjas fetch q key = (Inr (Some t), calls)
                 \<and> js_less (Fin 0) (totals.kcal t) \<longrightarrow>
               handler fetch key (Req q_param query_param)
                 = (Http 200 (Estimate (tagged t ''api_ninjas'')), calls)
               \<and> (\<forall>s. OpenFoodFactsSearch s \<notin> set calls))
          \<and> (\<forall>r calls1 t calls2.
               fetchFromApiNinjas fetch q key = (Inr r, calls1) \<and> \<not> usable r
                 \<and> fetchFromOpenFoodFacts fetch q = (Inr (Some t), calls2)
                 \<and> js_less (Fin 0) (totals.kcal t) \<longrightarrow>
               handler fetch key (Req q_param query_param)
                 = (Http 200 (Estimate (tagged t ''open_food_facts'')), calls1 @ calls2))
          \<and> (\<forall>r1 calls1 r2 calls2.
               fetchFromApiNinjas fetch q key = (Inr r1, calls1) \<and> \<not> usable r1
                 \<and> fetchFromOpenFoodFacts fetch q = (Inr r2, calls2) \<and> \<not> usable r2 \<longrightarrow>
               handler fetch key (Req q_param query_param)
                 = (Http 200 (Estimate \<lparr>totals.kcal = Fin 0, protein_g = Fin 0, carbs_g = Fin 0,
                                         fat_g = Fin 0, source = ''none''\<rparr>), calls1 @ calls2))
          \<and> (\<forall>err calls.
               fetchFromApiNinjas fetch q key = (Inl err, calls) \<longrightarrow>
               handler fetch key (Req q_param query_param)
                 = (Http 500 (ErrorThrown err), calls)
               \<and> (\<forall>s. OpenFoodFactsSearch s \<notin> set calls))
          \<and> (\<forall>r calls1 err calls2.
               fetchFromApiNinjas fetch q key = (Inr r, calls1) \<and> \<not> usable r
                 \<and> fetchFromOpenFoodFacts fetch q = (Inl err, calls2) \<longrightarrow>
               handler fetch key (Req q_param query_param)
                 = (Http 500 (ErrorThrown err), calls1 @ calls2)))
       \<and> (\<forall>t tag. tagged t tag
             = \<lparr>totals.kcal = totals.kcal t, protein_g = totals.protein_g t,
                carbs_g = totals.carbs_g t, fat_g = totals.fat_g t, source = tag\<rparr>)
       \<and> provenance_of ''api_ninjas'' = Some Exact_match_api
       \<and> provenance_of ''open_food_facts'' = Some Community_db
       \<and> provenance_of ''none'' = Some No_source"
proof -
  have e: "q = [] \<longrightarrow>
            handler fetch key (Req q_param query_param)
              = (Http 400 (ErrorMessage ''Missing ?q=''), [])"
    using assms by (simp add: handler_def Let_def)
  have c1: "handler fetch key (Req q_param query_param)
                 = (Http 200 (Estimate (tagged t ''api_ninjas'')), calls)
               \<and> (\<forall>s. OpenFoodFactsSearch s \<notin> set calls)"
    if "q \<noteq> []" and a: "fetchFromApiNinjas fetch q key = (Inr (Some t), calls)
                 \<and> js_less (Fin 0) (totals.kcal t)" for t calls
  proof
    show "handler fetch key (Req q_param query_param)
                 = (Http 200 (Estimate (tagged t ''api_ninjas'')), calls)"
      using assms that by (simp add: handler_def usable_def Let_def)
    show "\<forall>s. OpenFoodFactsSearch s \<notin> set calls"
    proof
      fix s
      from a fetchFromApiNinjas_calls [of s fetch q key]
      show "OpenFoodFactsSearch s \<notin> set calls" by simp
    qed
  qed
  have c2: "handler fetch key (Req q_param query_param)
                 = (Http 200 (Estimate (tagged t ''open_food_facts'')), calls1 @ calls2)"
    if "q \<noteq> []" and "fetchFromApiNinjas fetch q key = (Inr r, calls1) \<and> \<not> usable r
                 \<and> fetchFromOpenFoodFacts fetch q = (Inr (Some t), calls2)
                 \<and> js_less (Fin 0) (totals.kcal t)" for r calls1 t calls2
    using assms that by (simp add: handler_def usable_def Let_def)
  have c3: "handler fetch key (Req q_param query_param)
                 = (Http 200 (Estimate \<lparr>totals.kcal = Fin 0, protein_g = Fin 0, carbs_g = Fin 0,
                                         fat_g = Fin 0, source = ''none''\<rparr>), calls1 @ calls2)"
    if "q \<noteq> []" and "fetchFromApiNinjas fetch q key = (Inr r1, calls1) \<and> \<not> usable r1
                 \<and> fetchFromOpenFoodFacts fetch q = (Inr r2, calls2) \<and> \<not> usable r2"
    for r1 calls1 r2 calls2
    using assms that by (simp add: handler_def Let_def none_estimate_def)
  have c4: "handler fetch key (Req q_param query_param)
                 = (Http 500 (ErrorThrown err), calls)
               \<and> (\<forall>s. OpenFoodFactsSearch s \<notin> set calls)"
    if "q \<noteq> []" and a: "fetchFromApiNinjas fetch q key = (Inl err, calls)" for err calls
  proof
    show "handler fetch key (Req q_param query_param) = (Http 500 (ErrorThrown err), calls)"
      using assms that by (simp add: handler_def Let_def)
    show "\<forall>s. OpenFoodFactsSearch s \<notin> set calls"
    proof
      fix s
      from a fetchFromApiNinjas_calls [of s fetch q key]
      show "OpenFoodFactsSearch s \<notin> set calls" by simp
    qed
  qed
  have c5: "handler fetch key (Req q_param query_param)
                 = (Http 500 (ErrorThrown err), calls1 @ calls2)"
    if "q \<noteq> []" and "fetchFromApiNinjas fetch q key = (Inr r, calls1) \<and> \<not> usable r
                 \<and> fetchFromOpenFoodFacts fetch q = (Inl err, calls2)" for r calls1 err calls2
    using assms that by (simp add: handler_def Let_def)
  have p: "provenance_of ''api_ninjas'' = Some Exact_match_api
       \<and> provenance_of ''open_food_facts'' = Some Community_db
       \<and> provenance_of ''none'' = Some No_source"
    by (simp add: provenance_of_def)
  from e c1 c2 c3 c4 c5 p tagged_fields show ?thesis by blast
qed

text \<open>
  Witness for C1, on the query \<^verbatim>\<open>" rice "\<close>: the three orders of the claim, each on a
  transport that brings it about, and the empty query.
\<close>

theorem C1_orchestrator_order_witness:
  "trim (param_or (Some '' rice '') (param_or None [])) = ''rice''
   \<and> handler both_answer (Some ''k'') (Req (Some '' rice '') None)
       = (Http 200 (Estimate \<lparr>totals.kcal = Fin 150, protein_g = Fin 15, carbs_g = Fin 0,
                               fat_g = Fin 0, source = ''api_ninjas''\<rparr>),
          [ApiNinjasNutrition ''rice'' ''k''])
   \<and> handler only_community_answers (Some ''k'') (Req (Some '' rice '') None)
       = (Http 200 (Estimate \<lparr>totals.kcal = Fin 200, protein_g = Fin 0, carbs_g = Fin 0,
                               fat_g = Fin 0, source = ''open_food_facts''\<rparr>),
          [ApiNinjasNutrition ''rice'' ''k'', OpenFoodFactsSearch ''rice''])
   \<and> handler nothing_found (Some ''k'') (Req (Some '' rice '') None)
       = (Http 200 (Estimate \<lparr>totals.kcal = Fin 0, protein_g = Fin 0, carbs_g = Fin 0,
                               fat_g = Fin 0, source = ''none''\<rparr>),
          [ApiNinjasNutrition ''rice'' ''k'', OpenFoodFactsSearch ''rice''])
   \<and> handler both_answer (Some ''k'') (Req (Some ''  '') None)
       = (Http 400 (ErrorMessage ''Missing ?q=''), [])"
proof -
  have q: "''rice'' = trim (param_or (Some '' rice '') (param_or None []))"
    by code_simp
  have ne: "''rice'' \<noteq> []" by simp
  have q0: "[] = trim (param_or (Some ''  '') (param_or None []))"
    by code_simp
  have a1: "fetchFromApiNinjas both_answer ''rice'' (Some ''k'')
      = (Inr (Some \<lparr>totals.kcal = Fin 150, protein_g = Fin 15, carbs_g = Fin 0, fat_g = Fin 0\<rparr>),
         [ApiNinjasNutrition ''rice'' ''k''])"
    by code_simp
  have a2: "fetchFromApiNinjas only_community_answers ''rice'' (Some ''k'')
      = (Inr None, [ApiNinjasNutrition ''rice'' ''k''])"
    by code_simp
  have b2: "fetchFromOpenFoodFacts only_community_answers ''rice''
      = (Inr (Some \<lparr>totals.kcal = Fin 200, protein_g = Fin 0, carbs_g = Fin 0, fat_g = Fin 0\<rparr>),
         [OpenFoodFactsSearch ''rice''])"
    by code_simp
  have a3: "fetchFromApiNinjas nothing_found ''rice'' (Some ''k'')
      = (Inr None, [ApiNinjasNutrition ''rice'' ''k''])"
    by code_simp
  have b3: "fetchFromOpenFoodFacts nothing_found ''rice'' = (Inr None, [OpenFoodFactsSearch ''rice''])"
    by code_simp
  note u = not_usable_None
  have "handler both_answer (Some ''k'') (Req (Some '' rice '') None)
       = (Http 200 (Estimate (tagged \<lparr>totals.kcal = Fin 150, protein_g = Fin 15, carbs_g = Fin 0,
             fat_g = Fin 0\<rparr> ''api_ninjas'')), [ApiNinjasNutrition ''rice'' ''k''])"
    using C1_orchestrator_order [OF q, of both_answer "Some ''k''"] ne a1 by simp
  moreover have "handler only_community_answers (Some ''k'') (Req (Some '' rice '') None)
       = (Http 200 (Estimate (tagged \<lparr>totals.kcal = Fin 200, protein_g = Fin 0, carbs_g = Fin 0,
             fat_g = Fin 0\<rparr> ''open_food_facts'')),
          [ApiNinjasNutrition ''rice'' ''k''] @ [OpenFoodFactsSearch ''rice''])"
    using C1_orchestrator_order [OF q, of only_community_answers "Some ''k''"] ne a2 b2 u by simp
  moreover have "handler nothing_found (Some ''k'') (Req (Some '' rice '') None)
       = (Http 200 (Estimate \<lparr>totals.kcal = Fin 0, protein_g = Fin 0, carbs_g = Fin 0,
                               fat_g = Fin 0, source = ''none''\<rparr>),
          [ApiNinjasNutrition ''rice'' ''k''] @ [OpenFoodFactsSearch ''rice''])"
    using C1_orchestrator_order [OF q, of nothing_found "Some ''k''"] ne a3 b3 u by simp
  moreover have "handler both_answer (Some ''k'') (Req (Some ''  '') None)
       = (Http 400 (ErrorMessage ''Missing ?q=''), [])"
    using C1_orchestrator_order [OF q0, of both_answer "Some ''k''"] by simp
  ultimately show ?thesis
    using q by (simp add: tagged_fields)
qed

text \<open>
  Counterexample to C1 as stated. The exact-match service cannot be reached, so its
  client yields no populated result, and the community database holds a product for
  the query, which its client would return with 330 kcal. The claim has the
  orchestrator return that result; the handler answers 500 and never asks the
  community database.
\<close>

theorem C1_failed_provider_ends_request:
  "fetchFromApiNinjas exact_match_unreachable ''200g chicken'' (Some ''k'')
     = (Inl NetworkError, [ApiNinjasNutrition ''200g chicken'' ''k''])
   \<and> fetchFromOpenFoodFacts exact_match_unreachable ''200g chicken''
     = (Inr (Some \<lparr>totals.kcal = Fin 330, protein_g = Fin 0, carbs_g = Fin 0, fat_g = Fin 0\<rparr>),
        [OpenFoodFactsSearch ''200g chicken''])
   \<and> handler exact_match_unreachable (Some ''k'') (Req (Some ''200g chicken'') None)
     = (Http 500 (ErrorThrown NetworkError), [ApiNinjasNutrition ''200g chicken'' ''k''])"
  by code_simp

lemma fetchFromOpenFoodFacts_calls:
  "snd (fetchFromOpenFoodFacts fetch q) = [OpenFoodFactsSearch q]"
  by (simp add: fetchFromOpenFoodFacts_def Let_def split: fetch_result.splits option.splits)

text \<open>
  C2, as the program has it. For a non-empty trimmed query \<open>q\<close> and a key that is set:
  \<^item> a response that is not \<^verbatim>\<open>ok\<close> makes either client return \<^verbatim>\<open>null\<close> without
    throwing, and after such a response from the exact-match service the handler goes on
    to ask the community database;
  \<^item> a network failure makes either client throw (a \<open>NetworkError\<close>), and a body that is
    not JSON makes it throw a \<open>SyntaxError\<close>: neither client catches anything;
  \<^item> what the exact-match client throws reaches the handler, which answers 500 with it
    and asks no further source; what the community-database client throws is answered
    500 as well.
\<close>

theorem C2_client_failures:
  assumes "q = trim (param_or q_param (param_or query_param []))" and "q \<noteq> []" and "key \<noteq> []"
  shows "(\<forall>body. fetch (ApiNinjasNutrition q key) = Response False body \<longrightarrow>
            fetchFromApiNinjas fetch q (Some key) = (Inr None, [ApiNinjasNutrition q key])
            \<and> snd (handler fetch (Some key) (Req q_param query_param))
                = [ApiNinjasNutrition q key, OpenFoodFactsSearch q])
       \<and> (\<forall>body. fetch (OpenFoodFactsSearch q) = Response False body \<longrightarrow>
            fetchFromOpenFoodFacts fetch q = (Inr None, [OpenFoodFactsSearch q]))
       \<and> (fetch (ApiNinjasNutrition q key) = Rejected \<longrightarrow>
            fetchFromApiNinjas fetch q (Some key) = (Inl NetworkError, [ApiNinjasNutrition q key])
            \<and> handler fetch (Some key) (Req q_param query_param)
                = (Http 500 (ErrorThrown NetworkError), [ApiNinjasNutrition q key]))
       \<and> (fetch (ApiNinjasNutrition q key) = Response True None \<longrightarrow>
            fetchFromApiNinjas fetch q (Some key) = (Inl SyntaxError, [ApiNinjasNutrition q key])
            \<and> handler fetch (Some key) (Req q_param query_param)
                = (Http 500 (ErrorThrown SyntaxError), [ApiNinjasNutrition q key]))
       \<and> (fetch (OpenFoodFactsSearch q) = Rejected \<longrightarrow>
            fetchFromOpenFoodFacts fetch q = (Inl NetworkError, [OpenFoodFactsSearch q]))
       \<and> (fetch (OpenFoodFactsSearch q) = Response True None \<longrightarrow>
            fetchFromOpenFoodFacts fetch q = (Inl SyntaxError, [OpenFoodFactsSearch q]))
       \<and> (\<forall>r calls1 e calls2.
            fetchFromApiNinjas fetch q (Some key) = (Inr r, calls1) \<and> \<not> usable r
              \<and> fetchFromOpenFoodFacts fetch q = (Inl e, calls2) \<longrightarrow>
            handler fetch (Some key) (Req q_param query_param)
              = (Http 500 (ErrorThrown e), calls1 @ calls2))"
proof -
  have off: "snd (fetchFromOpenFoodFacts fetch q) = [OpenFoodFactsSearch q]"
    by (rule fetchFromOpenFoodFacts_calls)
  have p1: "\<forall>body. fetch (ApiNinjasNutrition q key) = Response False body \<longrightarrow>
            fetchFromApiNinjas fetch q (Some key) = (Inr None, [ApiNinjasNutrition q key])
            \<and> snd (handler fetch (Some key) (Req q_param query_param))
                = [ApiNinjasNutrition q key, OpenFoodFactsSearch q]"
  proof (intro allI impI)
    fix body
    assume f: "fetch (ApiNinjasNutrition q key) = Response False body"
    have c: "fetchFromApiNinjas fetch q (Some key) = (Inr None, [ApiNinjasNutrition q key])"
      using f assms(3) by (simp add: fetchFromApiNinjas_def)
    have "snd (handler fetch (Some key) (Req q_param query_param))
            = [ApiNinjasNutrition q key] @ snd (fetchFromOpenFoodFacts fetch q)"
      using assms(1,2) c
      by (auto simp: handler_def Let_def usable_def split: prod.splits sum.splits option.splits)
    with c off show "fetchFromApiNinjas fetch q (Some key) = (Inr None, [ApiNinjasNutrition q key])
            \<and> snd (handler fetch (Some key) (Req q_param query_param))
                = [ApiNinjasNutrition q key, OpenFoodFactsSearch q]" by simp
  qed
  have p2: "\<forall>body. fetch (OpenFoodFactsSearch q) = Response False body \<longrightarrow>
            fetchFromOpenFoodFacts fetch q = (Inr None, [OpenFoodFactsSearch q])"
    by (simp add: fetchFromOpenFoodFacts_def)
  have p3: "fetch (ApiNinjasNutrition q key) = Rejected \<longrightarrow>
            fetchFromApiNinjas fetch q (Some key) = (Inl NetworkError, [ApiNinjasNutrition q key])
            \<and> handler fetch (Some key) (Req q_param query_param)
                = (Http 500 (ErrorThrown NetworkError), [ApiNinjasNutrition q key])"
    using assms by (simp add: fetchFromApiNinjas_def handler_def Let_def)
  have p4: "fetch (ApiNinjasNutrition q key) = Response True None \<longrightarrow>
            fetchFromApiNinjas fetch q (Some key) = (Inl SyntaxError, [ApiNinjasNutrition q key])
            \<and> handler fetch (Some key) (Req q_param query_param)
                = (Http 500 (ErrorThrown SyntaxError), [ApiNinjasNutrition q key])"
    using assms by (simp add: fetchFromApiNinjas_def handler_def Let_def)
  have p5: "fetch (OpenFoodFactsSearch q) = Rejected \<longrightarrow>
            fetchFromOpenFoodFacts fetch q = (Inl NetworkError, [OpenFoodFactsSearch q])"
    by (simp add: fetchFromOpenFoodFacts_def)
  have p6: "fetch (OpenFoodFactsSearch q) = Response True None \<longrightarrow>
            fetchFromOpenFoodFacts fetch q = (Inl SyntaxError, [OpenFoodFactsSearch q])"
    by (simp add: fetchFromOpenFoodFacts_def)
  have p7: "\<forall>r calls1 e calls2.
            fetchFromApiNinjas fetch q (Some key) = (Inr r, calls1) \<and> \<not> usable r
              \<and> fetchFromOpenFoodFacts fetch q = (Inl e, calls2) \<longrightarrow>
            handler fetch (Some key) (Req q_param query_param)
              = (Http 500 (ErrorThrown e), calls1 @ calls2)"
    using assms(1,2) by (simp add: handler_def Let_def)
  from p1 p2 p3 p4 p5 p6 p7 show ?thesis by blast
qed

text \<open>
  Witness for C2: the exact-match service answers the query \<^verbatim>\<open>rice\<close> with a failure
  status; its client returns \<^verbatim>\<open>null\<close>, and the handler answers from the community database.
\<close>

theorem C2_client_failures_witness:
  "''rice'' = trim (param_or (Some ''rice'') (param_or None []))
   \<and> exact_match_unavailable (ApiNinjasNutrition ''rice'' ''k'') = Response False None
   \<and> fetchFromApiNinjas exact_match_unavailable ''rice'' (Some ''k'')
       = (Inr None, [ApiNinjasNutrition ''rice'' ''k''])
   \<and> handler exact_match_unavailable (Some ''k'') (Req (Some ''rice'') None)
       = (Http 200 (Estimate \<lparr>totals.kcal = Fin 140, protein_g = Fin 0, carbs_g = Fin 0,
                               fat_g = Fin 0, source = ''open_food_facts''\<rparr>),
          [ApiNinjasNutrition ''rice'' ''k'', OpenFoodFactsSearch ''rice''])"
proof -
  have q: "''rice'' = trim (param_or (Some ''rice'') (param_or None []))"
    by code_simp
  have ne: "''rice'' \<noteq> []" and k: "''k'' \<noteq> []" by simp_all
  have f: "exact_match_unavailable (ApiNinjasNutrition ''rice'' ''k'') = Response False None"
    by (simp add: exact_match_unavailable_def)
  have c: "fetchFromApiNinjas exact_match_unavailable ''rice'' (Some ''k'')
       = (Inr None, [ApiNinjasNutrition ''rice'' ''k''])"
    using C2_client_failures [OF q ne k, of exact_match_unavailable] f by blast
  have h: "handler exact_match_unavailable (Some ''k'') (Req (Some ''rice'') None)
       = (Http 200 (Estimate \<lparr>totals.kcal = Fin 140, protein_g = Fin 0, carbs_g = Fin 0,
                               fat_g = Fin 0, source = ''open_food_facts''\<rparr>),
          [ApiNinjasNutrition ''rice'' ''k'', OpenFoodFactsSearch ''rice''])"
    by code_simp
  from q f c h show ?thesis by blast
qed

text \<open>
  Counterexample to C2 as stated: when the exact-match service cannot be reached, and
  when it answers with a body that is not JSON, \<^verbatim>\<open>fetchFromApiNinjas\<close> throws instead of
  returning \<^verbatim>\<open>null\<close>; the exception reaches the handler, which answers 500 and does not
  pass to the community database, although that has data.
\<close>

theorem C2_network_failure_is_raised:
  "fetchFromApiNinjas exact_match_unreachable ''rice'' (Some ''k'')
     = (Inl NetworkError, [ApiNinjasNutrition ''rice'' ''k''])
   \<and> handler exact_match_unreachable (Some ''k'') (Req (Some ''rice'') None)
     = (Http 500 (ErrorThrown NetworkError), [ApiNinjasNutrition ''rice'' ''k''])
   \<and> fetchFromApiNinjas exact_match_garbled ''rice'' (Some ''k'')
     = (Inl SyntaxError, [ApiNinjasNutrition ''rice'' ''k''])
   \<and> handler exact_match_garbled (Some ''k'') (Req (Some ''rice'') None)
     = (Http 500 (ErrorThrown SyntaxError), [ApiNinjasNutrition ''rice'' ''k''])"
  by code_simp

text \<open>
  C3, as the program has it. When \<^verbatim>\<open>API_NINJAS_KEY\<close> is missing or empty,
  \<^verbatim>\<open>fetchFromApiNinjas\<close> returns \<^verbatim>\<open>null\<close> and issues no request. The handler with the
  fallback then goes on: for a non-empty trimmed query its one request is the search of
  the community database, and when that client returns, the answer is 200 with its
  result or with the zero estimate. The single-source handler at the head of the file
  answers 500 \<^verbatim>\<open>Missing API_NINJAS_KEY env var\<close> instead, and issues no request.
\<close>

theorem C3_missing_credential:
  assumes "key = None \<or> key = Some []"
  shows "fetchFromApiNinjas fetch query key = (Inr None, [])
       \<and> (\<forall>q_param query_param q.
            q = trim (param_or q_param (param_or query_param [])) \<and> q \<noteq> [] \<longrightarrow>
            snd (handler fetch key (Req q_param query_param)) = [OpenFoodFactsSearch q]
            \<and> (\<forall>off calls. fetchFromOpenFoodFacts fetch q = (Inr off, calls) \<longrightarrow>
                  fst (handler fetch key (Req q_param query_param))
                    = Http 200 (Estimate (case (if usable off then off else None) of
                                            Some t \<Rightarrow> tagged t ''open_food_facts''
                                          | None \<Rightarrow> none_estimate))))
       \<and> (\<forall>q_param query_param.
            param_or q_param (param_or query_param []) \<noteq> [] \<longrightarrow>
            handler_single_source fetch key (Req q_param query_param)
              = (Answer 500 (Failure ''Missing API_NINJAS_KEY env var''), []))"
proof -
  have c: "fetchFromApiNinjas fetch query key = (Inr None, [])" for query
    using assms by (auto simp: fetchFromApiNinjas_def)
  have h: "snd (handler fetch key (Req q_param query_param)) = [OpenFoodFactsSearch q]
            \<and> (\<forall>off calls. fetchFromOpenFoodFacts fetch q = (Inr off, calls) \<longrightarrow>
                  fst (handler fetch key (Req q_param query_param))
                    = Http 200 (Estimate (case (if usable off then off else None) of
                                            Some t \<Rightarrow> tagged t ''open_food_facts''
                                          | None \<Rightarrow> none_estimate)))"
    if "q = trim (param_or q_param (param_or query_param [])) \<and> q \<noteq> []"
    for q_param query_param q
  proof -
    have "snd (handler fetch key (Req q_param query_param)) = snd (fetchFromOpenFoodFacts fetch q)"
      using that c [of q]
      by (auto simp: handler_def Let_def usable_def split: prod.splits sum.splits option.splits)
    moreover have "\<forall>off calls. fetchFromOpenFoodFacts fetch q = (Inr off, calls) \<longrightarrow>
                  fst (handler fetch key (Req q_param query_param))
                    = Http 200 (Estimate (case (if usable off then off else None) of
                                            Some t \<Rightarrow> tagged t ''open_food_facts''
                                          | None \<Rightarrow> none_estimate))"
      using that c [of q]
      by (auto simp: handler_def Let_def usable_def split: option.splits)
    ultimately show ?thesis by (simp add: fetchFromOpenFoodFacts_calls)
  qed
  have s: "handler_single_source fetch key (Req q_param query_param)
              = (Answer 500 (Failure ''Missing API_NINJAS_KEY env var''), [])"
    if "param_or q_param (param_or query_param []) \<noteq> []" for q_param query_param
    using that assms by (auto simp: handler_single_source_def Let_def)
  from c h s show ?thesis by blast
qed

text \<open>
  Witness for C3: no key, the query \<^verbatim>\<open>rice\<close>, and a community database that has a
  product.
\<close>

theorem C3_missing_credential_witness:
  "fetchFromApiNinjas both_answer ''rice'' None = (Inr None, [])
   \<and> ''rice'' = trim (param_or (Some ''rice'') (param_or None []))
   \<and> snd (handler both_answer None (Req (Some ''rice'') None)) = [OpenFoodFactsSearch ''rice'']
   \<and> handler both_answer None (Req (Some ''rice'') None)
       = (Http 200 (Estimate \<lparr>totals.kcal = Fin 140, protein_g = Fin 0, carbs_g = Fin 0,
                               fat_g = Fin 0, source = ''open_food_facts''\<rparr>),
          [OpenFoodFactsSearch ''rice''])
   \<and> handler both_answer (Some []) (Req None (Some ''rice''))
       = (Http 200 (Estimate \<lparr>totals.kcal = Fin 140, protein_g = Fin 0, carbs_g = Fin 0,
                               fat_g = Fin 0, source = ''open_food_facts''\<rparr>),
          [OpenFoodFactsSearch ''rice''])"
proof -
  have n: "(None :: string option) = None \<or> None = Some []" by simp
  have q: "''rice'' = trim (param_or (Some ''rice'') (param_or None []))"
    by code_simp
  have ne: "''rice'' \<noteq> []" by simp
  from C3_missing_credential [OF n, of both_answer "''rice''"]
  have c: "fetchFromApiNinjas both_answer ''rice'' None = (Inr None, [])"
    and s: "snd (handler both_answer None (Req (Some ''rice'') None)) = [OpenFoodFactsSearch ''rice'']"
    using q ne by blast+
  have h: "handler both_answer None (Req (Some ''rice'') None)
       = (Http 200 (Estimate \<lparr>totals.kcal = Fin 140, protein_g = Fin 0, carbs_g = Fin 0,
                               fat_g = Fin 0, source = ''open_food_facts''\<rparr>),
          [OpenFoodFactsSearch ''rice''])
   \<and> handler both_answer (Some []) (Req None (Some ''rice''))
       = (Http 200 (Estimate \<lparr>totals.kcal = Fin 140, protein_g = Fin 0, carbs_g = Fin 0,
                               fat_g = Fin 0, source = ''open_food_facts''\<rparr>),
          [OpenFoodFactsSearch ''rice''])"
    by code_simp
  from c q s h show ?thesis by blast
qed

text \<open>
  Counterexample to C3 as stated: with no key, the single-source handler fails the
  request for the query \<^verbatim>\<open>rice\<close> with status 500, although the service would answer.
\<close>

theorem C3_single_source_handler_fails:
  "handler_single_source both_answer None (Req (Some ''rice'') None)
     = (Answer 500 (Failure ''Missing API_NINJAS_KEY env var''), [])"
  by code_simp

end
